theory Spec2Isabelle
  imports Main
begin

section \<open>The clan registry of \<^verbatim>\<open>src/Bot.py\<close> (class \<^verbatim>\<open>ClanManager\<close>)\<close>

text \<open>
  The registry is the dictionary \<^verbatim>\<open>self.clan_data\<close> with the two entries
  \<^verbatim>\<open>"clans"\<close> (clan name to clan) and \<^verbatim>\<open>"players"\<close> (\<^verbatim>\<open>str(player_id)\<close> to player
  record). Every method mutates it in place; here every method takes the registry and
  returns the registry it leaves behind, together with what the call did: it returned a
  pair \<^verbatim>\<open>(ok, message)\<close>, or it raised. A call that raises after its first mutation
  leaves the mutated registry behind, and the model returns that registry.
  \<^verbatim>\<open>save_data\<close> writes the registry to a file and is not modelled.
\<close>

subsection \<open>Data\<close>

record clan_rec =
  leader :: int
  members :: "int list"
  mods :: "int list"
  coleaders :: "int list"

record player_rec =
  clan :: string
  role :: string

record registry =
  clans :: "string \<rightharpoonup> clan_rec"
  players :: "string \<rightharpoonup> player_rec"

datatype py_error = KeyError | ValueError

type_synonym outcome = "py_error + bool \<times> string"

text \<open>\<^verbatim>\<open>load_data\<close> when no file exists.\<close>

definition empty_registry :: registry where
  "empty_registry = \<lparr>clans = Map.empty, players = Map.empty\<rparr>"

subsection \<open>\<^verbatim>\<open>str\<close> on integers: the keys of the players dictionary\<close>

definition digit_char :: "nat \<Rightarrow> char" where
  "digit_char d = char_of (48 + d)"

fun digits :: "nat \<Rightarrow> string" where
  "digits n = (if n < 10 then [digit_char n] else digits (n div 10) @ [digit_char (n mod 10)])"

declare digits.simps [simp del]

definition str :: "int \<Rightarrow> string" where
  "str i = (if i < 0 then CHR ''-'' # digits (nat (- i)) else digits (nat i))"

subsection \<open>Python list and dictionary primitives\<close>

text \<open>\<^verbatim>\<open>xs.remove(x)\<close>: drops the first occurrence, raises ValueError when there is none.\<close>

definition list_remove :: "int \<Rightarrow> int list \<Rightarrow> py_error + int list" where
  "list_remove x xs = (if x \<in> set xs then Inr (remove1 x xs) else Inl ValueError)"

text \<open>\<^verbatim>\<open>if x in xs: xs.remove(x)\<close>\<close>

definition remove_if_in :: "int \<Rightarrow> int list \<Rightarrow> int list" where
  "remove_if_in x xs = (if x \<in> set xs then remove1 x xs else xs)"

text \<open>\<^verbatim>\<open>if str(p) in players: del players[str(p)]\<close>\<close>

definition del_player :: "int \<Rightarrow> (string \<rightharpoonup> player_rec) \<Rightarrow> (string \<rightharpoonup> player_rec)" where
  "del_player p ps = (if ps (str p) \<noteq> None then ps(str p := None) else ps)"

text \<open>The loop \<^verbatim>\<open>for member_id in clan_members: if ... del ...\<close> of disband and delete.\<close>

fun del_players :: "int list \<Rightarrow> (string \<rightharpoonup> player_rec) \<Rightarrow> (string \<rightharpoonup> player_rec)" where
  "del_players [] ps = ps"
| "del_players (m # ms) ps = del_players ms (del_player m ps)"

text \<open>
  \<^verbatim>\<open>self.clan_data["players"][str(p)]["role"] = r\<close>: KeyError when the player has no
  record.
\<close>

definition set_role :: "registry \<Rightarrow> int \<Rightarrow> string \<Rightarrow> py_error + registry" where
  "set_role s p r =
     (case players s (str p) of
        None \<Rightarrow> Inl KeyError
      | Some pr \<Rightarrow> Inr (s\<lparr>players := (players s)(str p \<mapsto> pr\<lparr>role := r\<rparr>)\<rparr>))"

text \<open>The removal shared by kick, force kick and force join, once the target is known to
  be in \<open>members\<close>.\<close>

definition drop_ranks :: "int \<Rightarrow> clan_rec \<Rightarrow> clan_rec" where
  "drop_ranks t c = c\<lparr>mods := remove_if_in t (mods c), coleaders := remove_if_in t (coleaders c)\<rparr>"

subsection \<open>Lookups\<close>

text \<open>
  \<^verbatim>\<open>find_player_id_by_name\<close> is \<^verbatim>\<open>hash(name) % 1000000\<close>. Python's string hash is
  fixed within a process and unknown otherwise, so it is the parameter \<open>h\<close> of every
  operation that resolves a name. The callers test \<^verbatim>\<open>if not target_id\<close>, so the id
  \<open>0\<close> is "not found".
\<close>

definition find_player_id_by_name :: "(string \<Rightarrow> int) \<Rightarrow> string \<Rightarrow> int" where
  "find_player_id_by_name h name = h name mod 1000000"

definition get_player_clan :: "registry \<Rightarrow> int \<Rightarrow> string option" where
  "get_player_clan s player_id = map_option clan (players s (str player_id))"

definition get_player_role :: "registry \<Rightarrow> int \<Rightarrow> string" where
  "get_player_role s player_id =
     (case players s (str player_id) of None \<Rightarrow> ''Member'' | Some pr \<Rightarrow> role pr)"

definition is_leader :: "registry \<Rightarrow> int \<Rightarrow> string \<Rightarrow> py_error + bool" where
  "is_leader s player_id clan_name =
     (case clans s clan_name of None \<Rightarrow> Inl KeyError | Some c \<Rightarrow> Inr (leader c = player_id))"

definition has_permission :: "registry \<Rightarrow> int \<Rightarrow> string \<Rightarrow> string \<Rightarrow> py_error + bool" where
  "has_permission s player_id clan_name action =
     (case is_leader s player_id clan_name of
        Inl e \<Rightarrow> Inl e
      | Inr True \<Rightarrow> Inr True
      | Inr False \<Rightarrow>
          (let r = get_player_role s player_id in
           if action = ''kick'' then Inr (r \<in> set [''Leader'', ''Co-Leader'', ''Mod''])
           else if action = ''invite'' then Inr (r \<in> set [''Leader'', ''Co-Leader''])
           else if action = ''promote_demote'' then Inr (r \<in> set [''Leader'', ''Co-Leader''])
           else Inr False))"

subsection \<open>Operations\<close>

definition create_clan :: "registry \<Rightarrow> int \<Rightarrow> string \<Rightarrow> outcome \<times> registry" where
  "create_clan s leader_id clan_name =
     (if clans s clan_name \<noteq> None then (Inr (False, ''Clan name already exists''), s)
      else
        (Inr (True, ''Clan '' @ [CHR 0x27] @ clan_name @ [CHR 0x27] @ '' created successfully!''),
         s\<lparr>clans := (clans s)(clan_name \<mapsto>
               \<lparr>leader = leader_id, members = [leader_id], mods = [], coleaders = []\<rparr>),
            players := (players s)(str leader_id \<mapsto> \<lparr>clan = clan_name, role = ''Leader''\<rparr>)\<rparr>))"

definition kick_member ::
  "(string \<Rightarrow> int) \<Rightarrow> registry \<Rightarrow> int \<Rightarrow> string \<Rightarrow> string \<Rightarrow> outcome \<times> registry" where
  "kick_member h s kicker_id target_name clan_name =
     (let target_id = find_player_id_by_name h target_name in
      if target_id = 0 then (Inr (False, ''Player not found''), s)
      else if target_id = kicker_id then (Inr (False, ''You cannot kick yourself''), s)
      else
        (case clans s clan_name of
           None \<Rightarrow> (Inl KeyError, s)
         | Some c \<Rightarrow>
             if target_id \<notin> set (members c) then (Inr (False, ''Player is not in your clan''), s)
             else
               (case has_permission s kicker_id clan_name ''kick'' of
                  Inl e \<Rightarrow> (Inl e, s)
                | Inr False \<Rightarrow>
                    (Inr (False, ''You don'' @ [CHR 0x27] @ ''t have permission to kick members''), s)
                | Inr True \<Rightarrow>
                    (case is_leader s target_id clan_name of
                       Inl e \<Rightarrow> (Inl e, s)
                     | Inr True \<Rightarrow> (Inr (False, ''You cannot kick the clan leader''), s)
                     | Inr False \<Rightarrow>
                         (case list_remove target_id (members c) of
                            Inl e \<Rightarrow> (Inl e, s)
                          | Inr ms \<Rightarrow>
                              (Inr (True, ''Successfully kicked '' @ target_name @ '' from the clan''),
                               s\<lparr>clans := (clans s)(clan_name \<mapsto> drop_ranks target_id (c\<lparr>members := ms\<rparr>)),
                                  players := del_player target_id (players s)\<rparr>))))))"

definition invite_member ::
  "(string \<Rightarrow> int) \<Rightarrow> registry \<Rightarrow> int \<Rightarrow> string \<Rightarrow> string \<Rightarrow> outcome \<times> registry" where
  "invite_member h s inviter_id target_name clan_name =
     (let target_id = find_player_id_by_name h target_name in
      if target_id = 0 then (Inr (False, ''Player not found''), s)
      else
        (case has_permission s inviter_id clan_name ''invite'' of
           Inl e \<Rightarrow> (Inl e, s)
         | Inr False \<Rightarrow>
             (Inr (False, ''You don'' @ [CHR 0x27] @ ''t have permission to invite members''), s)
         | Inr True \<Rightarrow>
             if players s (str target_id) \<noteq> None
             then (Inr (False, ''Player is already in a clan''), s)
             else
               (case clans s clan_name of
                  None \<Rightarrow> (Inl KeyError, s)
                | Some c \<Rightarrow>
                    (Inr (True, ''Successfully invited '' @ target_name @ '' to the clan''),
                     s\<lparr>clans := (clans s)(clan_name \<mapsto> c\<lparr>members := members c @ [target_id]\<rparr>),
                        players := (players s)(str target_id \<mapsto>
                          \<lparr>clan = clan_name, role = ''Member''\<rparr>)\<rparr>))))"

definition disband_clan :: "registry \<Rightarrow> int \<Rightarrow> string \<Rightarrow> outcome \<times> registry" where
  "disband_clan s leader_id clan_name =
     (case is_leader s leader_id clan_name of
        Inl e \<Rightarrow> (Inl e, s)
      | Inr False \<Rightarrow> (Inr (False, ''Only the clan leader can disband the clan''), s)
      | Inr True \<Rightarrow>
          (case clans s clan_name of
             None \<Rightarrow> (Inl KeyError, s)
           | Some c \<Rightarrow>
               (Inr (True, ''Clan '' @ [CHR 0x27] @ clan_name @ [CHR 0x27] @ '' has been disbanded''),
                s\<lparr>clans := (clans s)(clan_name := None),
                   players := del_players (members c) (players s)\<rparr>)))"

text \<open>
  The tail of the mutating branches of promote and demote: the clan's lists have been
  changed already (registry \<open>s1\<close>) when the role is stored, so a KeyError of the store
  leaves \<open>s1\<close> behind.
\<close>

definition store_role :: "registry \<Rightarrow> int \<Rightarrow> string \<Rightarrow> string \<Rightarrow> outcome \<times> registry" where
  "store_role s1 target_id r msg =
     (case set_role s1 target_id r of
        Inl e \<Rightarrow> (Inl e, s1)
      | Inr s2 \<Rightarrow> (Inr (True, msg), s2))"

definition promote_member ::
  "(string \<Rightarrow> int) \<Rightarrow> registry \<Rightarrow> int \<Rightarrow> string \<Rightarrow> string \<Rightarrow> string \<Rightarrow> outcome \<times> registry" where
  "promote_member h s promoter_id target_name clan_name to_role =
     (let target_id = find_player_id_by_name h target_name;
          done = ''Successfully promoted '' @ target_name @ '' to '' @ to_role in
      if target_id = 0 then (Inr (False, ''Player not found''), s)
      else
        (case has_permission s promoter_id clan_name ''promote_demote'' of
           Inl e \<Rightarrow> (Inl e, s)
         | Inr False \<Rightarrow>
             (Inr (False, ''You don'' @ [CHR 0x27] @ ''t have permission to promote members''), s)
         | Inr True \<Rightarrow>
             (case clans s clan_name of
                None \<Rightarrow> (Inl KeyError, s)
              | Some c \<Rightarrow>
                  (let current_role = get_player_role s target_id in
                   if to_role = ''Mod'' then
                     if current_role \<noteq> ''Member''
                     then (Inr (False, ''Player is already '' @ current_role), s)
                     else store_role
                            (s\<lparr>clans := (clans s)(clan_name \<mapsto> c\<lparr>mods := mods c @ [target_id]\<rparr>)\<rparr>)
                            target_id ''Mod'' done
                   else if to_role = ''Co-Leader'' then
                     if current_role = ''Member'' then
                       store_role
                         (s\<lparr>clans := (clans s)(clan_name \<mapsto>
                               c\<lparr>mods := mods c @ [target_id],
                                 coleaders := coleaders c @ [target_id]\<rparr>)\<rparr>)
                         target_id ''Co-Leader'' done
                     else if current_role = ''Mod'' then
                       (case list_remove target_id (mods c) of
                          Inl e \<Rightarrow> (Inl e, s)
                        | Inr ms \<Rightarrow>
                            store_role
                              (s\<lparr>clans := (clans s)(clan_name \<mapsto>
                                    c\<lparr>mods := ms, coleaders := coleaders c @ [target_id]\<rparr>)\<rparr>)
                              target_id ''Co-Leader'' done)
                     else (Inr (False, ''Player is already '' @ current_role), s)
                   else (Inr (True, done), s)))))"

definition demote_member ::
  "(string \<Rightarrow> int) \<Rightarrow> registry \<Rightarrow> int \<Rightarrow> string \<Rightarrow> string \<Rightarrow> outcome \<times> registry" where
  "demote_member h s demoter_id target_name clan_name =
     (let target_id = find_player_id_by_name h target_name;
          done = ''Successfully demoted '' @ target_name in
      if target_id = 0 then (Inr (False, ''Player not found''), s)
      else
        (case has_permission s demoter_id clan_name ''promote_demote'' of
           Inl e \<Rightarrow> (Inl e, s)
         | Inr False \<Rightarrow>
             (Inr (False, ''You don'' @ [CHR 0x27] @ ''t have permission to demote members''), s)
         | Inr True \<Rightarrow>
             (case clans s clan_name of
                None \<Rightarrow> (Inl KeyError, s)
              | Some c \<Rightarrow>
                  (let current_role = get_player_role s target_id in
                   if current_role = ''Co-Leader'' then
                     (case list_remove target_id (coleaders c) of
                        Inl e \<Rightarrow> (Inl e, s)
                      | Inr cs \<Rightarrow>
                          store_role
                            (s\<lparr>clans := (clans s)(clan_name \<mapsto>
                                  c\<lparr>mods := mods c @ [target_id], coleaders := cs\<rparr>)\<rparr>)
                            target_id ''Mod'' done)
                   else if current_role = ''Mod'' then
                     (case list_remove target_id (mods c) of
                        Inl e \<Rightarrow> (Inl e, s)
                      | Inr ms \<Rightarrow>
                          store_role
                            (s\<lparr>clans := (clans s)(clan_name \<mapsto> c\<lparr>mods := ms\<rparr>)\<rparr>)
                            target_id ''Member'' done)
                   else (Inr (False, ''Cannot demote a regular member''), s)))))"

definition force_kick :: "(string \<Rightarrow> int) \<Rightarrow> registry \<Rightarrow> string \<Rightarrow> outcome \<times> registry" where
  "force_kick h s target_name =
     (let target_id = find_player_id_by_name h target_name in
      if target_id = 0 then (Inr (False, ''Player not found''), s)
      else
        (case players s (str target_id) of
           None \<Rightarrow> (Inr (False, ''Player is not in any clan''), s)
         | Some pr \<Rightarrow>
             (case clans s (clan pr) of
                None \<Rightarrow> (Inl KeyError, s)
              | Some c \<Rightarrow>
                  (case list_remove target_id (members c) of
                     Inl e \<Rightarrow> (Inl e, s)
                   | Inr ms \<Rightarrow>
                       (Inr (True, ''Force kicked '' @ target_name @ '' from '' @ clan pr),
                        s\<lparr>clans := (clans s)(clan pr \<mapsto> drop_ranks target_id (c\<lparr>members := ms\<rparr>)),
                           players := (players s)(str target_id := None)\<rparr>)))))"

text \<open>
  Force join leaves its old clan first. \<^verbatim>\<open>old_clan\<close> and \<^verbatim>\<open>clan\<close> are references into
  the same dictionary and may be the same clan, so the destination is looked up in the
  registry as the removal left it.
\<close>

definition leave_old_clan :: "registry \<Rightarrow> int \<Rightarrow> py_error + registry" where
  "leave_old_clan s target_id =
     (case players s (str target_id) of
        None \<Rightarrow> Inr s
      | Some pr \<Rightarrow>
          (case clans s (clan pr) of
             None \<Rightarrow> Inl KeyError
           | Some oc \<Rightarrow>
               (case list_remove target_id (members oc) of
                  Inl e \<Rightarrow> Inl e
                | Inr ms \<Rightarrow>
                    Inr (s\<lparr>clans := (clans s)(clan pr \<mapsto> drop_ranks target_id (oc\<lparr>members := ms\<rparr>))\<rparr>))))"

definition force_join ::
  "(string \<Rightarrow> int) \<Rightarrow> registry \<Rightarrow> string \<Rightarrow> string \<Rightarrow> outcome \<times> registry" where
  "force_join h s target_name clan_name =
     (let target_id = find_player_id_by_name h target_name in
      if target_id = 0 then (Inr (False, ''Player not found''), s)
      else if clans s clan_name = None then (Inr (False, ''Clan not found''), s)
      else
        (case leave_old_clan s target_id of
           Inl e \<Rightarrow> (Inl e, s)
         | Inr s1 \<Rightarrow>
             (case clans s1 clan_name of
                None \<Rightarrow> (Inl KeyError, s1)
              | Some c \<Rightarrow>
                  (Inr (True, ''Force joined '' @ target_name @ '' to '' @ clan_name),
                   s1\<lparr>clans := (clans s1)(clan_name \<mapsto> c\<lparr>members := members c @ [target_id]\<rparr>),
                      players := (players s1)(str target_id \<mapsto>
                        \<lparr>clan = clan_name, role = ''Member''\<rparr>)\<rparr>))))"

definition delete_clan :: "registry \<Rightarrow> string \<Rightarrow> outcome \<times> registry" where
  "delete_clan s clan_name =
     (case clans s clan_name of
        None \<Rightarrow> (Inr (False, ''Clan not found''), s)
      | Some c \<Rightarrow>
          (Inr (True, ''Clan '' @ [CHR 0x27] @ clan_name @ [CHR 0x27] @ '' has been deleted''),
           s\<lparr>clans := (clans s)(clan_name := None),
              players := del_players (members c) (players s)\<rparr>))"

subsection \<open>Sequences of calls\<close>

datatype op =
    CreateClan int string
  | KickMember int string string
  | InviteMember int string string
  | DisbandClan int string
  | PromoteMember int string string string
  | DemoteMember int string string
  | ForceKick string
  | ForceJoin string string
  | DeleteClan string

fun exec :: "(string \<Rightarrow> int) \<Rightarrow> registry \<Rightarrow> op \<Rightarrow> outcome \<times> registry" where
  "exec h s (CreateClan p n) = create_clan s p n"
| "exec h s (KickMember p t n) = kick_member h s p t n"
| "exec h s (InviteMember p t n) = invite_member h s p t n"
| "exec h s (DisbandClan p n) = disband_clan s p n"
| "exec h s (PromoteMember p t n r) = promote_member h s p t n r"
| "exec h s (DemoteMember p t n) = demote_member h s p t n"
| "exec h s (ForceKick t) = force_kick h s t"
| "exec h s (ForceJoin t n) = force_join h s t n"
| "exec h s (DeleteClan n) = delete_clan s n"

text \<open>The registry after a sequence of calls; a call that raised leaves what it had
  mutated, and the next call runs on that.\<close>

fun run :: "(string \<Rightarrow> int) \<Rightarrow> registry \<Rightarrow> op list \<Rightarrow> registry" where
  "run h s [] = s"
| "run h s (x # xs) = run h (snd (exec h s x)) xs"

subsection \<open>One clan for each player\<close>

text \<open>
  \<open>member_of\<close>: the player is in the members list of the clan of that name.
  \<open>one_clan_each\<close>: no player is in the members of two clans. \<open>members_recorded\<close> is
  the invariant behind it: a clan's members list has no duplicates and each member's
  record names that clan. \<open>caller_checked\<close> is the check of the command layer before
  \<^verbatim>\<open>create_clan\<close> (\<^verbatim>\<open>ClanBot.create_clan\<close>: the caller has no clan), and
  \<open>checked_run\<close> says that every call of a sequence passes it in the registry it runs
  on.
\<close>

definition member_of :: "registry \<Rightarrow> int \<Rightarrow> string \<Rightarrow> bool" where
  "member_of s p n = (case clans s n of None \<Rightarrow> False | Some c \<Rightarrow> p \<in> set (members c))"

definition one_clan_each :: "registry \<Rightarrow> bool" where
  "one_clan_each s = (\<forall>p n m. member_of s p n \<and> member_of s p m \<longrightarrow> n = m)"

definition members_recorded :: "registry \<Rightarrow> bool" where
  "members_recorded s =
     (\<forall>n c. clans s n = Some c \<longrightarrow>
        distinct (members c) \<and> (\<forall>p \<in> set (members c). get_player_clan s p = Some n))"

fun caller_checked :: "registry \<Rightarrow> op \<Rightarrow> bool" where
  "caller_checked s (CreateClan p n) = (get_player_clan s p = None)"
| "caller_checked s x = True"

fun checked_run :: "(string \<Rightarrow> int) \<Rightarrow> registry \<Rightarrow> op list \<Rightarrow> bool" where
  "checked_run h s [] = True"
| "checked_run h s (x # xs) = (caller_checked s x \<and> checked_run h (snd (exec h s x)) xs)"

subsection \<open>The invariant of a clan\<close>

text \<open>
  \<open>clan_inv\<close> is the invariant of the data model: the leader is a member, mods and
  coleaders are disjoint, the leader is in neither, and both are within members.
  \<open>role_of\<close> is the role a clan's lists give a player. \<open>registry_ok\<close> is the invariant
  that the operations keep: \<open>clan_inv\<close>, lists without duplicates, and every member's
  record names the clan and the role of the lists. \<open>clanless\<close>: the player is in no
  members list. \<open>op_admitted\<close> are the conditions on a call under which the invariant
  is kept, and \<open>admitted_run\<close> says that every call of a sequence meets them in the
  registry it runs on.
\<close>

definition clan_inv :: "clan_rec \<Rightarrow> bool" where
  "clan_inv c =
     (leader c \<in> set (members c)
      \<and> set (mods c) \<inter> set (coleaders c) = {}
      \<and> leader c \<notin> set (mods c) \<union> set (coleaders c)
      \<and> set (mods c) \<union> set (coleaders c) \<subseteq> set (members c))"

definition all_clans_inv :: "registry \<Rightarrow> bool" where
  "all_clans_inv s = (\<forall>n c. clans s n = Some c \<longrightarrow> clan_inv c)"

definition role_of :: "clan_rec \<Rightarrow> int \<Rightarrow> string" where
  "role_of c p =
     (if p = leader c then ''Leader'' else if p \<in> set (coleaders c) then ''Co-Leader''
      else if p \<in> set (mods c) then ''Mod'' else ''Member'')"

definition clan_ok :: "registry \<Rightarrow> string \<Rightarrow> clan_rec \<Rightarrow> bool" where
  "clan_ok s n c =
     (clan_inv c \<and> distinct (members c) \<and> distinct (mods c) \<and> distinct (coleaders c)
      \<and> (\<forall>p \<in> set (members c). players s (str p) = Some \<lparr>clan = n, role = role_of c p\<rparr>))"

definition registry_ok :: "registry \<Rightarrow> bool" where
  "registry_ok s = (\<forall>n c. clans s n = Some c \<longrightarrow> clan_ok s n c)"

definition clanless :: "registry \<Rightarrow> int \<Rightarrow> bool" where
  "clanless s t = (\<forall>m d. clans s m = Some d \<longrightarrow> t \<notin> set (members d))"

fun op_admitted :: "(string \<Rightarrow> int) \<Rightarrow> registry \<Rightarrow> op \<Rightarrow> bool" where
  "op_admitted h s (CreateClan p n) = (get_player_clan s p = None)"
| "op_admitted h s (PromoteMember p t n r) =
     ((r = ''Mod'' \<longrightarrow> member_of s (find_player_id_by_name h t) n)
      \<and> (r = ''Co-Leader'' \<longrightarrow> get_player_role s (find_player_id_by_name h t) \<noteq> ''Member''))"
| "op_admitted h s (ForceKick t) = (get_player_role s (find_player_id_by_name h t) \<noteq> ''Leader'')"
| "op_admitted h s (ForceJoin t n) = (get_player_role s (find_player_id_by_name h t) \<noteq> ''Leader'')"
| "op_admitted h s x = True"

fun admitted_run :: "(string \<Rightarrow> int) \<Rightarrow> registry \<Rightarrow> op list \<Rightarrow> bool" where
  "admitted_run h s [] = True"
| "admitted_run h s (x # xs) = (op_admitted h s x \<and> admitted_run h (snd (exec h s x)) xs)"

subsection \<open>Sample inputs\<close>

text \<open>A name hash for the concrete runs below: three names with ids 1, 5 and 6, every
  other name resolves to 0 ("not found").\<close>

definition hash0 :: "string \<Rightarrow> int" where
  "hash0 name =
     (if name = ''alice'' then 1 else if name = ''bob'' then 5
      else if name = ''carol'' then 6 else 0)"

text \<open>A registry with one clan: leader 1, the Mod 5 (bob) and the Member 6 (carol).\<close>

definition raiders :: registry where
  "raiders =
     \<lparr>clans = [''Raiders'' \<mapsto> \<lparr>leader = 1, members = [1, 5, 6], mods = [5], coleaders = []\<rparr>],
      players = [str 1 \<mapsto> \<lparr>clan = ''Raiders'', role = ''Leader''\<rparr>,
                 str 5 \<mapsto> \<lparr>clan = ''Raiders'', role = ''Mod''\<rparr>,
                 str 6 \<mapsto> \<lparr>clan = ''Raiders'', role = ''Member''\<rparr>]\<rparr>"

section \<open>Basic facts\<close>

subsection \<open>\<open>str\<close> is injective\<close>

lemma digit_char_inj: "a < 10 \<Longrightarrow> b < 10 \<Longrightarrow> digit_char a = digit_char b \<Longrightarrow> a = b"
  unfolding digit_char_def
  by (auto simp: char_of_eq_iff take_bit_eq_mod)

lemma digit_char_not_minus: "a < 10 \<Longrightarrow> digit_char a \<noteq> CHR ''-''"
proof -
  assume "a < 10"
  then have "of_char (digit_char a) = 48 + a"
    by (simp add: digit_char_def take_bit_eq_mod)
  moreover have "of_char (CHR ''-'') = (45::nat)" by simp
  ultimately show ?thesis by auto
qed

lemma digits_not_Nil: "digits n \<noteq> []"
  by (subst digits.simps) simp

lemma hd_digits: "hd (digits n) \<noteq> CHR ''-''"
proof (induction n rule: digits.induct)
  case (1 n)
  show ?case
  proof (cases "n < 10")
    case True
    then show ?thesis by (simp add: digits.simps[of n] digit_char_not_minus)
  next
    case False
    with "1.IH" digits_not_Nil[of "n div 10"] show ?thesis
      by (simp add: digits.simps[of n])
  qed
qed

lemma digits_inj: "digits n = digits m \<Longrightarrow> n = m"
proof (induction n arbitrary: m rule: digits.induct)
  case (1 n)
  show ?case
  proof (cases "n < 10")
    case True
    show ?thesis
    proof (cases "m < 10")
      case True
      with \<open>n < 10\<close> "1.prems" show ?thesis
        by (simp add: digits.simps[of n] digits.simps[of m] digit_char_inj)
    next
      case False
      with \<open>n < 10\<close> "1.prems" digits_not_Nil[of "m div 10"] show ?thesis
        by (simp add: digits.simps[of n] digits.simps[of m] append_eq_Cons_conv)
    qed
  next
    case False
    show ?thesis
    proof (cases "m < 10")
      case True
      with False "1.prems" digits_not_Nil[of "n div 10"] show ?thesis
        by (simp add: digits.simps[of n] digits.simps[of m] Cons_eq_append_conv)
    next
      case mf: False
      from False mf "1.prems" have e: "digits (n div 10) = digits (m div 10)"
        and d: "digit_char (n mod 10) = digit_char (m mod 10)"
        by (simp_all add: digits.simps[of n] digits.simps[of m])
      from "1.IH"[OF False e] have "n div 10 = m div 10" .
      moreover from d have "n mod 10 = m mod 10" by (intro digit_char_inj) simp_all
      ultimately show ?thesis by (metis div_mult_mod_eq)
    qed
  qed
qed

lemma str_inj [simp]: "str a = str b \<longleftrightarrow> a = b"
proof
  assume e: "str a = str b"
  have neg: "CHR ''-'' # xs \<noteq> digits k" for xs k
    using hd_digits[of k] by (cases "digits k") auto
  show "a = b"
  proof (cases "a < 0")
    case True
    show ?thesis
    proof (cases "b < 0")
      case True
      with \<open>a < 0\<close> e have "nat (- a) = nat (- b)"
        by (simp add: str_def digits_inj)
      with True \<open>a < 0\<close> show ?thesis by simp
    next
      case False
      with True e neg show ?thesis by (simp add: str_def)
    qed
  next
    case False
    show ?thesis
    proof (cases "b < 0")
      case True
      with False e neg[of "digits (nat (- b))" "nat a"] show ?thesis by (simp add: str_def)
    next
      case bf: False
      with False e have "nat a = nat b"
        by (simp add: str_def digits_inj)
      with False bf show ?thesis by simp
    qed
  qed
qed simp

subsection \<open>The list and dictionary primitives\<close>

lemma remove_if_in_remove1: "remove_if_in x xs = remove1 x xs"
  by (simp add: remove_if_in_def remove1_idem)

lemma del_player_upd: "del_player p ps = ps(str p := None)"
  by (auto simp: del_player_def)

lemma store_role_not_failed: "store_role s1 t r msg \<noteq> (Inr (False, m), s')"
  by (simp add: store_role_def split: sum.splits)

section \<open>A failing call leaves the registry as it was\<close>

lemma create_clan_failed: "create_clan s p n = (Inr (False, m), s') \<Longrightarrow> s' = s"
  by (auto simp: create_clan_def split: if_splits)

lemma kick_member_failed: "kick_member h s p t n = (Inr (False, m), s') \<Longrightarrow> s' = s"
  by (auto simp: kick_member_def Let_def split: if_splits option.splits sum.splits bool.splits)

lemma invite_member_failed: "invite_member h s p t n = (Inr (False, m), s') \<Longrightarrow> s' = s"
  by (auto simp: invite_member_def Let_def split: if_splits option.splits sum.splits bool.splits)

lemma disband_clan_failed: "disband_clan s p n = (Inr (False, m), s') \<Longrightarrow> s' = s"
  by (auto simp: disband_clan_def split: if_splits option.splits sum.splits bool.splits)

lemma promote_member_failed: "promote_member h s p t n r = (Inr (False, m), s') \<Longrightarrow> s' = s"
  by (auto simp: promote_member_def Let_def store_role_not_failed
      split: if_splits option.splits sum.splits bool.splits)

lemma demote_member_failed: "demote_member h s p t n = (Inr (False, m), s') \<Longrightarrow> s' = s"
  by (auto simp: demote_member_def Let_def store_role_not_failed
      split: if_splits option.splits sum.splits bool.splits)

lemma force_kick_failed: "force_kick h s t = (Inr (False, m), s') \<Longrightarrow> s' = s"
  by (auto simp: force_kick_def Let_def split: if_splits option.splits sum.splits)

lemma force_join_failed: "force_join h s t n = (Inr (False, m), s') \<Longrightarrow> s' = s"
  by (auto simp: force_join_def Let_def split: if_splits option.splits sum.splits)

lemma delete_clan_failed: "delete_clan s n = (Inr (False, m), s') \<Longrightarrow> s' = s"
  by (auto simp: delete_clan_def split: option.splits)

text \<open>
  Claim C1. Whatever the operation (create, kick, invite, disband, promote, demote, force
  kick, force join, delete) and whatever the registry: a call that returns
  \<^verbatim>\<open>(False, message)\<close> leaves both dictionaries, clans and players, exactly as they were
  before the call.
\<close>

theorem failing_call_leaves_registry:
  "exec h s x = (Inr (False, msg), s') \<Longrightarrow> s' = s"
  by (cases x)
    (auto dest: create_clan_failed kick_member_failed invite_member_failed disband_clan_failed
      promote_member_failed demote_member_failed force_kick_failed force_join_failed
      delete_clan_failed)

text \<open>The second creation of a clan of the same name fails and changes nothing.\<close>

theorem failing_call_leaves_registry_witness:
  "exec hash0 (snd (create_clan empty_registry 1 ''Raiders'')) (CreateClan 2 ''Raiders'')
     = (Inr (False, ''Clan name already exists''),
        snd (exec hash0 (snd (create_clan empty_registry 1 ''Raiders'')) (CreateClan 2 ''Raiders'')))
   \<and> snd (exec hash0 (snd (create_clan empty_registry 1 ''Raiders'')) (CreateClan 2 ''Raiders''))
     = snd (create_clan empty_registry 1 ''Raiders'')"
proof -
  have e: "exec hash0 (snd (create_clan empty_registry 1 ''Raiders'')) (CreateClan 2 ''Raiders'')
     = (Inr (False, ''Clan name already exists''),
        snd (exec hash0 (snd (create_clan empty_registry 1 ''Raiders'')) (CreateClan 2 ''Raiders'')))"
    by (simp add: create_clan_def empty_registry_def)
  from e failing_call_leaves_registry [OF e] show ?thesis by simp
qed

section \<open>Concrete runs\<close>

lemmas op_defs = create_clan_def kick_member_def invite_member_def disband_clan_def
  promote_member_def demote_member_def force_kick_def force_join_def delete_clan_def
  leave_old_clan_def store_role_def set_role_def list_remove_def drop_ranks_def
  remove_if_in_def del_player_def has_permission_def is_leader_def get_player_role_def
  get_player_clan_def find_player_id_by_name_def hash0_def empty_registry_def Let_def

lemma raiders_reachable:
  "run hash0 empty_registry
     [CreateClan 1 ''Raiders'', InviteMember 1 ''bob'' ''Raiders'',
      InviteMember 1 ''carol'' ''Raiders'', PromoteMember 1 ''bob'' ''Raiders'' ''Mod''] = raiders"
  by (simp add: op_defs raiders_def fun_upd_twist)

lemma raiders_clan:
  "clans raiders ''Raiders'' = Some \<lparr>leader = 1, members = [1, 5, 6], mods = [5], coleaders = []\<rparr>"
  by (simp add: raiders_def)

lemma raiders_clans:
  "clans raiders = [''Raiders'' \<mapsto> \<lparr>leader = 1, members = [1, 5, 6], mods = [5], coleaders = []\<rparr>]"
  by (simp add: raiders_def)

lemma raiders_players:
  "players raiders (str 1) = Some \<lparr>clan = ''Raiders'', role = ''Leader''\<rparr>"
  "players raiders (str 5) = Some \<lparr>clan = ''Raiders'', role = ''Mod''\<rparr>"
  "players raiders (str 6) = Some \<lparr>clan = ''Raiders'', role = ''Member''\<rparr>"
  by (simp_all add: raiders_def)

lemma hash0_ids:
  "find_player_id_by_name hash0 ''alice'' = 1"
  "find_player_id_by_name hash0 ''bob'' = 5"
  "find_player_id_by_name hash0 ''carol'' = 6"
  "find_player_id_by_name hash0 ''dave'' = 0"
  by (simp_all add: find_player_id_by_name_def hash0_def)

section \<open>Permissions\<close>

lemma has_permission_total:
  "clans s n = Some c \<Longrightarrow> \<exists>b. has_permission s p n a = Inr b"
  by (auto simp: has_permission_def is_leader_def Let_def split: bool.splits)

lemma has_permission_clan:
  "has_permission s p n a = Inr b \<Longrightarrow> \<exists>c. clans s n = Some c"
  by (auto simp: has_permission_def is_leader_def split: option.splits)

lemma vikings_clan:
  "clans (snd (create_clan raiders 2 ''Vikings'')) ''Raiders''
     = Some \<lparr>leader = 1, members = [1, 5, 6], mods = [5], coleaders = []\<rparr>"
  by (simp add: create_clan_def raiders_def)

lemma vikings_players:
  "players (snd (create_clan raiders 2 ''Vikings'')) (str 2) = Some \<lparr>clan = ''Vikings'', role = ''Leader''\<rparr>"
  "players (snd (create_clan raiders 2 ''Vikings'')) (str 5) = Some \<lparr>clan = ''Raiders'', role = ''Mod''\<rparr>"
  "players (snd (create_clan raiders 2 ''Vikings'')) (str 6) = Some \<lparr>clan = ''Raiders'', role = ''Member''\<rparr>"
  "players (snd (create_clan raiders 2 ''Vikings'')) (str 9) = None"
  by (simp_all add: create_clan_def raiders_def)

text \<open>
  Claim C5. For a clan that exists, \<open>has_permission\<close> returns true for the clan's leader
  whatever the action. For any other player the role is read from the players dictionary
  under \<open>str p\<close>, whatever clan that record names, and is \<open>Member\<close> when there is no
  record; the result is whether that role is in the action's set: Leader, Co-Leader and
  Mod for \<open>kick\<close>; Leader and Co-Leader for \<open>invite\<close> and for \<open>promote_demote\<close>; no
  role for any other action string.
\<close>

theorem has_permission_table:
  assumes "clans s n = Some c"
  shows "has_permission s p n a =
     Inr (if leader c = p then True
          else (let r = (case players s (str p) of None \<Rightarrow> ''Member'' | Some pr \<Rightarrow> role pr) in
                if a = ''kick'' then r \<in> {''Leader'', ''Co-Leader'', ''Mod''}
                else if a = ''invite'' then r \<in> {''Leader'', ''Co-Leader''}
                else if a = ''promote_demote'' then r \<in> {''Leader'', ''Co-Leader''}
                else False))"
  using assms by (simp add: has_permission_def is_leader_def get_player_role_def Let_def)

text \<open>
  Two clans. In Raiders: the leader of Vikings, 2, may invite (its role is the one of its
  own clan); the Mod 5 may kick and may not invite; player 9 has no record and may not
  kick; an action outside the table is refused to 2 and granted to the leader 1.
\<close>

theorem has_permission_table_witness:
  "clans (snd (create_clan raiders 2 ''Vikings'')) ''Raiders''
     = Some \<lparr>leader = 1, members = [1, 5, 6], mods = [5], coleaders = []\<rparr>
   \<and> has_permission (snd (create_clan raiders 2 ''Vikings'')) 2 ''Raiders'' ''invite'' = Inr True
   \<and> has_permission (snd (create_clan raiders 2 ''Vikings'')) 5 ''Raiders'' ''kick'' = Inr True
   \<and> has_permission (snd (create_clan raiders 2 ''Vikings'')) 5 ''Raiders'' ''invite'' = Inr False
   \<and> has_permission (snd (create_clan raiders 2 ''Vikings'')) 9 ''Raiders'' ''kick'' = Inr False
   \<and> has_permission (snd (create_clan raiders 2 ''Vikings'')) 2 ''Raiders'' ''disband'' = Inr False
   \<and> has_permission (snd (create_clan raiders 2 ''Vikings'')) 1 ''Raiders'' ''disband'' = Inr True"
  using has_permission_table [OF vikings_clan, of 2 "''invite''"]
    has_permission_table [OF vikings_clan, of 5 "''kick''"]
    has_permission_table [OF vikings_clan, of 5 "''invite''"]
    has_permission_table [OF vikings_clan, of 9 "''kick''"]
    has_permission_table [OF vikings_clan, of 2 "''disband''"]
    has_permission_table [OF vikings_clan, of 1 "''disband''"]
  by (simp add: vikings_clan vikings_players)

section \<open>Kick and invite\<close>

text \<open>
  What \<open>kick_member\<close> does in a clan that exists. It returns \<open>False\<close> exactly when the
  target name resolves to no player (id 0), or to the kicker, or to a player who is not in
  the clan's members, or the kicker has no \<open>kick\<close> permission, or the target is the
  clan's leader. In every other case it returns \<open>True\<close>, one occurrence of the target
  (Python's \<open>remove\<close>) is taken out of each of members, mods and coleaders, and the
  target's player record is deleted.
\<close>

lemma kick_member_spec:
  assumes "clans s n = Some c"
  shows "kick_member h s k tn n =
     (let t = find_player_id_by_name h tn in
      if t = 0 then (Inr (False, ''Player not found''), s)
      else if t = k then (Inr (False, ''You cannot kick yourself''), s)
      else if t \<notin> set (members c) then (Inr (False, ''Player is not in your clan''), s)
      else if has_permission s k n ''kick'' = Inr False
      then (Inr (False, ''You don'' @ [CHR 0x27] @ ''t have permission to kick members''), s)
      else if leader c = t then (Inr (False, ''You cannot kick the clan leader''), s)
      else (Inr (True, ''Successfully kicked '' @ tn @ '' from the clan''),
            s\<lparr>clans := (clans s)(n \<mapsto> c\<lparr>members := remove1 t (members c),
                                          mods := remove1 t (mods c),
                                          coleaders := remove1 t (coleaders c)\<rparr>),
               players := (players s)(str t := None)\<rparr>))
   \<and> ((\<exists>m. fst (kick_member h s k tn n) = Inr (False, m)) \<or>
        get_player_clan (snd (kick_member h s k tn n)) (find_player_id_by_name h tn) = None)"
  using assms has_permission_total[OF assms, of k "''kick''"]
  by (auto simp: kick_member_def Let_def is_leader_def list_remove_def drop_ranks_def
      remove_if_in_remove1 del_player_upd get_player_clan_def split: bool.splits)

text \<open>The Mod 5 kicks the Member 6; nobody, not even a Co-Leader, kicks the leader.\<close>

lemma kick_member_spec_example:
  "clans raiders ''Raiders'' = Some \<lparr>leader = 1, members = [1, 5, 6], mods = [5], coleaders = []\<rparr>
   \<and> kick_member hash0 raiders 5 ''carol'' ''Raiders'' =
       (Inr (True, ''Successfully kicked carol from the clan''),
        raiders\<lparr>clans := [''Raiders'' \<mapsto> \<lparr>leader = 1, members = [1, 5], mods = [5], coleaders = []\<rparr>],
                players := (players raiders)(str 6 := None)\<rparr>)
   \<and> kick_member hash0 raiders 5 ''alice'' ''Raiders'' =
       (Inr (False, ''You cannot kick the clan leader''), raiders)"
proof -
  have p: "has_permission raiders 5 ''Raiders'' ''kick'' = Inr True"
    by (simp add: raiders_def has_permission_def is_leader_def get_player_role_def)
  from kick_member_spec [OF raiders_clan, of hash0 5 "''carol''"]
    kick_member_spec [OF raiders_clan, of hash0 5 "''alice''"]
    raiders_clan p raiders_clans show ?thesis
    by (simp add: hash0_ids)
qed

text \<open>
  Claim C9. In a clan that exists, \<open>invite_member\<close> returns \<open>False\<close> exactly when the
  target name resolves to no player, or the inviter has no \<open>invite\<close> permission, or the
  target already has a player record (of any clan, this one included). In every other
  case it returns \<open>True\<close>, the target is appended to the clan's members, and the target
  gets a player record with this clan and the role \<open>Member\<close>.
\<close>

theorem invite_member_spec:
  assumes "clans s n = Some c"
  shows "invite_member h s i tn n =
     (let t = find_player_id_by_name h tn in
      if t = 0 then (Inr (False, ''Player not found''), s)
      else if has_permission s i n ''invite'' = Inr False
      then (Inr (False, ''You don'' @ [CHR 0x27] @ ''t have permission to invite members''), s)
      else if players s (str t) \<noteq> None then (Inr (False, ''Player is already in a clan''), s)
      else (Inr (True, ''Successfully invited '' @ tn @ '' to the clan''),
            s\<lparr>clans := (clans s)(n \<mapsto> c\<lparr>members := members c @ [t]\<rparr>),
               players := (players s)(str t \<mapsto> \<lparr>clan = n, role = ''Member''\<rparr>)\<rparr>))"
  using assms has_permission_total[OF assms, of i "''invite''"]
  by (auto simp: invite_member_def Let_def split: bool.splits)

text \<open>The leader of a fresh clan invites bob; a second invitation of bob fails.\<close>

theorem invite_member_spec_witness:
  "clans (snd (create_clan empty_registry 1 ''Raiders'')) ''Raiders''
     = Some \<lparr>leader = 1, members = [1], mods = [], coleaders = []\<rparr>
   \<and> invite_member hash0 (snd (create_clan empty_registry 1 ''Raiders'')) 1 ''bob'' ''Raiders'' =
       (Inr (True, ''Successfully invited bob to the clan''),
        \<lparr>clans = [''Raiders'' \<mapsto> \<lparr>leader = 1, members = [1, 5], mods = [], coleaders = []\<rparr>],
         players = [str 1 \<mapsto> \<lparr>clan = ''Raiders'', role = ''Leader''\<rparr>,
                    str 5 \<mapsto> \<lparr>clan = ''Raiders'', role = ''Member''\<rparr>]\<rparr>)
   \<and> invite_member hash0 raiders 1 ''bob'' ''Raiders'' =
       (Inr (False, ''Player is already in a clan''), raiders)"
proof -
  have c: "clans (snd (create_clan empty_registry 1 ''Raiders'')) ''Raiders''
     = Some \<lparr>leader = 1, members = [1], mods = [], coleaders = []\<rparr>"
    by (simp add: create_clan_def empty_registry_def)
  have p: "has_permission (snd (create_clan empty_registry 1 ''Raiders'')) 1 ''Raiders'' ''invite'' = Inr True"
    "has_permission raiders 1 ''Raiders'' ''invite'' = Inr True"
    by (simp_all add: has_permission_def is_leader_def c raiders_clan)
  from invite_member_spec [OF c, of hash0 1 "''bob''"]
    invite_member_spec [OF raiders_clan, of hash0 1 "''bob''"] c p show ?thesis
    by (simp add: hash0_ids raiders_players) (simp add: create_clan_def empty_registry_def)
qed

section \<open>Promote and demote\<close>

text \<open>
  What \<open>promote_member\<close> does in a clan that exists, with the role \<open>Mod\<close> or
  \<open>Co-Leader\<close>, for a target that has a player record (and, from \<open>Mod\<close>, is in the clan's
  mods). It returns \<open>False\<close> when the target name resolves to no player and when the
  promoter has no \<open>promote_demote\<close> permission. Past these checks: to \<open>Mod\<close>, a target
  whose current role is anything but \<open>Member\<close> fails with "Player is already <role>", and
  a target whose record says \<open>Member\<close> is appended to mods and gets the role \<open>Mod\<close>; to
  \<open>Co-Leader\<close>, a target whose record says \<open>Member\<close> is appended to both mods and
  coleaders, a target whose record says \<open>Mod\<close> loses one occurrence in mods and is
  appended to coleaders, and a \<open>Leader\<close> or \<open>Co-Leader\<close> fails with "Player is already
  <role>".
\<close>

lemma promote_member_spec:
  assumes "clans s n = Some c"
  shows
   "(find_player_id_by_name h tn = 0 \<longrightarrow>
       promote_member h s p tn n to_role = (Inr (False, ''Player not found''), s))
    \<and> (find_player_id_by_name h tn \<noteq> 0 \<and> has_permission s p n ''promote_demote'' = Inr False \<longrightarrow>
       promote_member h s p tn n to_role =
         (Inr (False, ''You don'' @ [CHR 0x27] @ ''t have permission to promote members''), s))
    \<and> (find_player_id_by_name h tn \<noteq> 0 \<and> has_permission s p n ''promote_demote'' = Inr True \<longrightarrow>
       (let t = find_player_id_by_name h tn; cur = get_player_role s t;
            done = ''Successfully promoted '' @ tn @ '' to '' @ to_role in
        (to_role = ''Mod'' \<longrightarrow>
           (cur \<noteq> ''Member'' \<longrightarrow>
              promote_member h s p tn n to_role = (Inr (False, ''Player is already '' @ cur), s))
           \<and> ((\<exists>m s'. promote_member h s p tn n to_role = (Inr (True, m), s')) \<longrightarrow> cur = ''Member'')
           \<and> (\<forall>pr. players s (str t) = Some pr \<and> role pr = ''Member'' \<longrightarrow>
                promote_member h s p tn n to_role =
                  (Inr (True, done),
                   s\<lparr>clans := (clans s)(n \<mapsto> c\<lparr>mods := mods c @ [t]\<rparr>),
                      players := (players s)(str t \<mapsto> pr\<lparr>role := ''Mod''\<rparr>)\<rparr>)))
        \<and> (to_role = ''Co-Leader'' \<longrightarrow>
             (\<forall>pr. players s (str t) = Some pr \<and> role pr = ''Member'' \<longrightarrow>
                promote_member h s p tn n to_role =
                  (Inr (True, done),
                   s\<lparr>clans := (clans s)(n \<mapsto> c\<lparr>mods := mods c @ [t],
                                                 coleaders := coleaders c @ [t]\<rparr>),
                      players := (players s)(str t \<mapsto> pr\<lparr>role := ''Co-Leader''\<rparr>)\<rparr>))
             \<and> (\<forall>pr. players s (str t) = Some pr \<and> role pr = ''Mod'' \<and> t \<in> set (mods c) \<longrightarrow>
                promote_member h s p tn n to_role =
                  (Inr (True, done),
                   s\<lparr>clans := (clans s)(n \<mapsto> c\<lparr>mods := remove1 t (mods c),
                                                 coleaders := coleaders c @ [t]\<rparr>),
                      players := (players s)(str t \<mapsto> pr\<lparr>role := ''Co-Leader''\<rparr>)\<rparr>))
             \<and> (cur = ''Leader'' \<or> cur = ''Co-Leader'' \<longrightarrow>
                promote_member h s p tn n to_role = (Inr (False, ''Player is already '' @ cur), s)))))"
  using assms
  by (auto simp: promote_member_def Let_def get_player_role_def store_role_def set_role_def
      list_remove_def split: option.splits)

text \<open>The leader promotes the Member carol to Mod and the Mod bob to Co-Leader; bob
  cannot become Mod once more.\<close>

lemma promote_member_spec_example:
  "clans raiders ''Raiders'' = Some \<lparr>leader = 1, members = [1, 5, 6], mods = [5], coleaders = []\<rparr>
   \<and> promote_member hash0 raiders 1 ''carol'' ''Raiders'' ''Mod'' =
       (Inr (True, ''Successfully promoted carol to Mod''),
        raiders\<lparr>clans := [''Raiders'' \<mapsto> \<lparr>leader = 1, members = [1, 5, 6], mods = [5, 6], coleaders = []\<rparr>],
                players := (players raiders)(str 6 \<mapsto> \<lparr>clan = ''Raiders'', role = ''Mod''\<rparr>)\<rparr>)
   \<and> promote_member hash0 raiders 1 ''bob'' ''Raiders'' ''Co-Leader'' =
       (Inr (True, ''Successfully promoted bob to Co-Leader''),
        raiders\<lparr>clans := [''Raiders'' \<mapsto> \<lparr>leader = 1, members = [1, 5, 6], mods = [], coleaders = [5]\<rparr>],
                players := (players raiders)(str 5 \<mapsto> \<lparr>clan = ''Raiders'', role = ''Co-Leader''\<rparr>)\<rparr>)
   \<and> promote_member hash0 raiders 1 ''bob'' ''Raiders'' ''Mod'' =
       (Inr (False, ''Player is already Mod''), raiders)"
proof -
  have p: "has_permission raiders 1 ''Raiders'' ''promote_demote'' = Inr True"
    by (simp add: has_permission_def is_leader_def raiders_clan)
  from promote_member_spec [OF raiders_clan, of hash0 "''carol''" 1 "''Mod''"]
    promote_member_spec [OF raiders_clan, of hash0 "''bob''" 1 "''Co-Leader''"]
    promote_member_spec [OF raiders_clan, of hash0 "''bob''" 1 "''Mod''"]
    p raiders_clan raiders_clans show ?thesis
    by (simp add: hash0_ids raiders_players get_player_role_def Let_def)
qed

text \<open>
  Claim C10. A role string other than \<open>Mod\<close> and \<open>Co-Leader\<close>: when the target name
  resolves and the promoter has the \<open>promote_demote\<close> permission, \<open>promote_member\<close>
  returns \<open>True\<close> with the message "Successfully promoted <name> to <role>" and the
  registry is the one before the call: no list of any clan and no player record changes.
\<close>

theorem promote_member_other_role:
  assumes "to_role \<noteq> ''Mod''" and "to_role \<noteq> ''Co-Leader''"
    and "find_player_id_by_name h tn \<noteq> 0"
    and "has_permission s p n ''promote_demote'' = Inr True"
  shows "promote_member h s p tn n to_role =
           (Inr (True, ''Successfully promoted '' @ tn @ '' to '' @ to_role), s)"
proof -
  from assms(4) obtain c where "clans s n = Some c"
    by (auto dest: has_permission_clan)
  with assms show ?thesis
    by (simp add: promote_member_def Let_def)
qed

theorem promote_member_other_role_witness:
  "''Leader'' \<noteq> ''Mod'' \<and> ''Leader'' \<noteq> ''Co-Leader''
   \<and> find_player_id_by_name hash0 ''carol'' \<noteq> 0
   \<and> has_permission raiders 1 ''Raiders'' ''promote_demote'' = Inr True
   \<and> promote_member hash0 raiders 1 ''carol'' ''Raiders'' ''Leader'' =
       (Inr (True, ''Successfully promoted carol to Leader''), raiders)"
proof -
  have p: "has_permission raiders 1 ''Raiders'' ''promote_demote'' = Inr True"
    by (simp add: has_permission_def is_leader_def raiders_clan)
  have r: "find_player_id_by_name hash0 ''carol'' \<noteq> 0" by (simp add: hash0_ids)
  from promote_member_other_role [OF _ _ r p, of "''Leader''"] p r show ?thesis by simp
qed

text \<open>
  What \<open>demote_member\<close> does in a clan that exists. It returns \<open>False\<close> when the target
  name resolves to no player and when the demoter has no \<open>promote_demote\<close> permission.
  Past these checks: a target whose record says \<open>Co-Leader\<close> and who is in the clan's
  coleaders loses one occurrence in coleaders, is appended to mods and gets the role
  \<open>Mod\<close>; a target whose record says \<open>Mod\<close> and who is in the clan's mods loses one
  occurrence in mods and gets the role \<open>Member\<close>; a target whose current role is
  \<open>Member\<close> or \<open>Leader\<close> fails with "Cannot demote a regular member".
\<close>

lemma demote_member_spec:
  assumes "clans s n = Some c"
  shows
   "(find_player_id_by_name h tn = 0 \<longrightarrow>
       demote_member h s d tn n = (Inr (False, ''Player not found''), s))
    \<and> (find_player_id_by_name h tn \<noteq> 0 \<and> has_permission s d n ''promote_demote'' = Inr False \<longrightarrow>
       demote_member h s d tn n =
         (Inr (False, ''You don'' @ [CHR 0x27] @ ''t have permission to demote members''), s))
    \<and> (find_player_id_by_name h tn \<noteq> 0 \<and> has_permission s d n ''promote_demote'' = Inr True \<longrightarrow>
       (let t = find_player_id_by_name h tn; cur = get_player_role s t;
            done = ''Successfully demoted '' @ tn in
        (\<forall>pr. players s (str t) = Some pr \<and> role pr = ''Co-Leader'' \<and> t \<in> set (coleaders c) \<longrightarrow>
            demote_member h s d tn n =
              (Inr (True, done),
               s\<lparr>clans := (clans s)(n \<mapsto> c\<lparr>mods := mods c @ [t],
                                             coleaders := remove1 t (coleaders c)\<rparr>),
                  players := (players s)(str t \<mapsto> pr\<lparr>role := ''Mod''\<rparr>)\<rparr>))
        \<and> (\<forall>pr. players s (str t) = Some pr \<and> role pr = ''Mod'' \<and> t \<in> set (mods c) \<longrightarrow>
            demote_member h s d tn n =
              (Inr (True, done),
               s\<lparr>clans := (clans s)(n \<mapsto> c\<lparr>mods := remove1 t (mods c)\<rparr>),
                  players := (players s)(str t \<mapsto> pr\<lparr>role := ''Member''\<rparr>)\<rparr>))
        \<and> (cur = ''Member'' \<or> cur = ''Leader'' \<longrightarrow>
            demote_member h s d tn n = (Inr (False, ''Cannot demote a regular member''), s))))"
  using assms
  by (auto simp: demote_member_def Let_def get_player_role_def store_role_def set_role_def
      list_remove_def)

text \<open>The leader demotes the Mod bob to Member; the Member carol and the leader alice
  cannot be demoted.\<close>

lemma demote_member_spec_example:
  "clans raiders ''Raiders'' = Some \<lparr>leader = 1, members = [1, 5, 6], mods = [5], coleaders = []\<rparr>
   \<and> demote_member hash0 raiders 1 ''bob'' ''Raiders'' =
       (Inr (True, ''Successfully demoted bob''),
        raiders\<lparr>clans := [''Raiders'' \<mapsto> \<lparr>leader = 1, members = [1, 5, 6], mods = [], coleaders = []\<rparr>],
                players := (players raiders)(str 5 \<mapsto> \<lparr>clan = ''Raiders'', role = ''Member''\<rparr>)\<rparr>)
   \<and> demote_member hash0 raiders 1 ''carol'' ''Raiders'' =
       (Inr (False, ''Cannot demote a regular member''), raiders)
   \<and> demote_member hash0 raiders 1 ''alice'' ''Raiders'' =
       (Inr (False, ''Cannot demote a regular member''), raiders)"
proof -
  have p: "has_permission raiders 1 ''Raiders'' ''promote_demote'' = Inr True"
    by (simp add: has_permission_def is_leader_def raiders_clan)
  from demote_member_spec [OF raiders_clan, of hash0 "''bob''" 1]
    demote_member_spec [OF raiders_clan, of hash0 "''carol''" 1]
    demote_member_spec [OF raiders_clan, of hash0 "''alice''" 1]
    p raiders_clan raiders_clans show ?thesis
    by (simp add: hash0_ids raiders_players get_player_role_def)
qed

section \<open>Calls that raise\<close>

text \<open>
  Claim C4 says that no operation raises on a registry reached through the operations,
  promote and demote in particular when the target has no record or a record of another
  clan. The code does raise there. After \<open>CreateClan 1 Raiders\<close>, the leader promotes
  bob, who is in no clan, to Mod: the default role \<open>Member\<close> passes the check, bob is
  appended to mods, and the store of the role raises KeyError, leaving bob in mods. And
  when bob is Co-Leader of Raiders, the leader of another clan, Vikings, demotes bob
  there: bob's role is looked up globally, and the removal from the coleaders of Vikings
  raises ValueError.
\<close>

theorem promote_demote_raise:
  "promote_member hash0 (run hash0 empty_registry [CreateClan 1 ''Raiders''])
          1 ''bob'' ''Raiders'' ''Mod''
     = (Inl KeyError,
        \<lparr>clans = [''Raiders'' \<mapsto> \<lparr>leader = 1, members = [1], mods = [5], coleaders = []\<rparr>],
         players = [str 1 \<mapsto> \<lparr>clan = ''Raiders'', role = ''Leader''\<rparr>]\<rparr>)
   \<and> fst (demote_member hash0
          (run hash0 empty_registry
             [CreateClan 1 ''Raiders'', InviteMember 1 ''bob'' ''Raiders'',
              PromoteMember 1 ''bob'' ''Raiders'' ''Mod'',
              PromoteMember 1 ''bob'' ''Raiders'' ''Co-Leader'',
              CreateClan 2 ''Vikings''])
          2 ''bob'' ''Vikings'') = Inl ValueError"
  by (simp add: op_defs)

section \<open>A player listed twice in mods\<close>

text \<open>
  The promotion of a Member straight to Co-Leader appends the player to mods and to
  coleaders, while the promotion from Mod and the demotion treat the two lists as
  exclusive. A demotion then appends the player to mods once more. Four ordinary calls
  reach a clan whose mods hold bob twice, with bob's role \<open>Mod\<close>:
\<close>

lemma twice_listed:
  "run hash0 empty_registry
     [CreateClan 1 ''Raiders'', InviteMember 1 ''bob'' ''Raiders'',
      PromoteMember 1 ''bob'' ''Raiders'' ''Co-Leader'', DemoteMember 1 ''bob'' ''Raiders'']
   = \<lparr>clans = [''Raiders'' \<mapsto> \<lparr>leader = 1, members = [1, 5], mods = [5, 5], coleaders = []\<rparr>],
      players = [str 1 \<mapsto> \<lparr>clan = ''Raiders'', role = ''Leader''\<rparr>,
                 str 5 \<mapsto> \<lparr>clan = ''Raiders'', role = ''Mod''\<rparr>]\<rparr>"
  by (simp add: op_defs)

text \<open>
  Claim C6 says that a successful kick removes the target from the clan's members, mods
  and coleaders and leaves it without a clan. On the registry above the leader kicks bob:
  the call returns \<open>True\<close>, bob's record is deleted and bob is out of members, but
  \<open>remove\<close> took one of the two entries only and bob is still in the clan's mods.
\<close>

theorem kick_member_leaves_target_in_mods:
  "kick_member hash0
     (run hash0 empty_registry
        [CreateClan 1 ''Raiders'', InviteMember 1 ''bob'' ''Raiders'',
         PromoteMember 1 ''bob'' ''Raiders'' ''Co-Leader'', DemoteMember 1 ''bob'' ''Raiders''])
     1 ''bob'' ''Raiders''
   = (Inr (True, ''Successfully kicked bob from the clan''),
      \<lparr>clans = [''Raiders'' \<mapsto> \<lparr>leader = 1, members = [1], mods = [5], coleaders = []\<rparr>],
       players = [str 1 \<mapsto> \<lparr>clan = ''Raiders'', role = ''Leader''\<rparr>]\<rparr>)"
  unfolding twice_listed
  by (simp add: op_defs fun_upd_twist)

text \<open>
  Claim C7 says that a promotion to Co-Leader moves a Mod from mods to coleaders, and that
  from Member it adds the target to both lists with the resulting role Co-Leader. On the
  registry above the leader promotes the Mod bob to Co-Leader: the call returns \<open>True\<close>
  and bob is in coleaders and still in mods. And after \<open>CreateClan 1 Raiders\<close> alone, bob
  has no record, his looked-up role is the default \<open>Member\<close>, and the promotion to
  Co-Leader appends bob to both lists and then raises KeyError: no pair is returned and
  bob has no role.
\<close>

theorem promote_member_leaves_target_in_mods:
  "promote_member hash0
     (run hash0 empty_registry
        [CreateClan 1 ''Raiders'', InviteMember 1 ''bob'' ''Raiders'',
         PromoteMember 1 ''bob'' ''Raiders'' ''Co-Leader'', DemoteMember 1 ''bob'' ''Raiders''])
     1 ''bob'' ''Raiders'' ''Co-Leader''
   = (Inr (True, ''Successfully promoted bob to Co-Leader''),
      \<lparr>clans = [''Raiders'' \<mapsto> \<lparr>leader = 1, members = [1, 5], mods = [5], coleaders = [5]\<rparr>],
       players = [str 1 \<mapsto> \<lparr>clan = ''Raiders'', role = ''Leader''\<rparr>,
                  str 5 \<mapsto> \<lparr>clan = ''Raiders'', role = ''Co-Leader''\<rparr>]\<rparr>)
   \<and> get_player_role (run hash0 empty_registry [CreateClan 1 ''Raiders'']) 5 = ''Member''
   \<and> promote_member hash0 (run hash0 empty_registry [CreateClan 1 ''Raiders''])
        1 ''bob'' ''Raiders'' ''Co-Leader''
     = (Inl KeyError,
        \<lparr>clans = [''Raiders'' \<mapsto> \<lparr>leader = 1, members = [1], mods = [5], coleaders = [5]\<rparr>],
         players = [str 1 \<mapsto> \<lparr>clan = ''Raiders'', role = ''Leader''\<rparr>]\<rparr>)"
  unfolding twice_listed
  by (simp add: op_defs)

text \<open>
  Claim C8 says that the demotion of a Mod removes it from mods, and that a Co-Leader is
  removed from coleaders, added to mods and becomes Mod. On the registry above the leader
  demotes the Mod bob: the call returns \<open>True\<close>, bob's role is \<open>Member\<close>, and bob is
  still in mods. And when bob is Co-Leader of Raiders and the leader of Vikings demotes
  bob in Vikings, bob's looked-up role is \<open>Co-Leader\<close> and the removal from the
  coleaders of Vikings raises ValueError: nothing is demoted and no pair is returned.
\<close>

theorem demote_member_leaves_target_in_mods:
  "demote_member hash0
     (run hash0 empty_registry
        [CreateClan 1 ''Raiders'', InviteMember 1 ''bob'' ''Raiders'',
         PromoteMember 1 ''bob'' ''Raiders'' ''Co-Leader'', DemoteMember 1 ''bob'' ''Raiders''])
     1 ''bob'' ''Raiders''
   = (Inr (True, ''Successfully demoted bob''),
      \<lparr>clans = [''Raiders'' \<mapsto> \<lparr>leader = 1, members = [1, 5], mods = [5], coleaders = []\<rparr>],
       players = [str 1 \<mapsto> \<lparr>clan = ''Raiders'', role = ''Leader''\<rparr>,
                  str 5 \<mapsto> \<lparr>clan = ''Raiders'', role = ''Member''\<rparr>]\<rparr>)
   \<and> get_player_role
        (run hash0 empty_registry
           [CreateClan 1 ''Raiders'', InviteMember 1 ''bob'' ''Raiders'',
            PromoteMember 1 ''bob'' ''Raiders'' ''Mod'',
            PromoteMember 1 ''bob'' ''Raiders'' ''Co-Leader'', CreateClan 2 ''Vikings'']) 5
       = ''Co-Leader''
   \<and> demote_member hash0
        (run hash0 empty_registry
           [CreateClan 1 ''Raiders'', InviteMember 1 ''bob'' ''Raiders'',
            PromoteMember 1 ''bob'' ''Raiders'' ''Mod'',
            PromoteMember 1 ''bob'' ''Raiders'' ''Co-Leader'', CreateClan 2 ''Vikings''])
        2 ''bob'' ''Vikings''
     = (Inl ValueError,
        run hash0 empty_registry
           [CreateClan 1 ''Raiders'', InviteMember 1 ''bob'' ''Raiders'',
            PromoteMember 1 ''bob'' ''Raiders'' ''Mod'',
            PromoteMember 1 ''bob'' ''Raiders'' ''Co-Leader'', CreateClan 2 ''Vikings''])"
  unfolding twice_listed
  by (simp add: op_defs)

section \<open>One clan for each player\<close>

lemma members_recorded_empty: "members_recorded empty_registry"
  by (simp add: members_recorded_def empty_registry_def)

lemma members_recordedI:
  assumes "\<And>n c. clans s n = Some c \<Longrightarrow> distinct (members c)"
    and "\<And>n c p. clans s n = Some c \<Longrightarrow> p \<in> set (members c) \<Longrightarrow>
           \<exists>pr. players s (str p) = Some pr \<and> clan pr = n"
  shows "members_recorded s"
  unfolding members_recorded_def get_player_clan_def using assms by fastforce

lemma recordedD:
  "members_recorded s \<Longrightarrow> clans s n = Some c \<Longrightarrow> p \<in> set (members c) \<Longrightarrow>
     \<exists>pr. players s (str p) = Some pr \<and> clan pr = n"
  unfolding members_recorded_def get_player_clan_def by fastforce

lemma recorded_distinct:
  "members_recorded s \<Longrightarrow> clans s n = Some c \<Longrightarrow> distinct (members c)"
  by (auto simp: members_recorded_def)

lemma recorded_unique:
  assumes "members_recorded s" and "clans s n = Some c" and "p \<in> set (members c)"
    and "clans s m = Some d" and "p \<in> set (members d)"
  shows "m = n"
  using recordedD[OF assms(1,2,3)] recordedD[OF assms(1,4,5)] by auto

lemma members_recorded_one_clan:
  assumes "members_recorded s"
  shows "one_clan_each s"
  unfolding one_clan_each_def
proof (intro allI impI, elim conjE)
  fix p n m
  assume "member_of s p n" and "member_of s p m"
  then obtain c d where c: "clans s n = Some c" "p \<in> set (members c)"
    and d: "clans s m = Some d" "p \<in> set (members d)"
    by (auto simp: member_of_def split: option.splits)
  from recorded_unique[OF assms d c] show "n = m" .
qed

lemma del_players_apply:
  "del_players ms ps k = (if k \<in> str ` set ms then None else ps k)"
  by (induction ms arbitrary: ps) (auto simp: del_player_upd)

text \<open>Changing ranks and roles only.\<close>

lemma members_recorded_ranks:
  assumes "members_recorded s" and "clans s n = Some c" and "members c' = members c"
    and ps: "\<And>k. map_option clan (ps' k) = map_option clan (players s k)"
  shows "members_recorded (s\<lparr>clans := (clans s)(n \<mapsto> c'), players := ps'\<rparr>)"
proof (rule members_recordedI)
  fix m d
  assume "clans (s\<lparr>clans := (clans s)(n \<mapsto> c'), players := ps'\<rparr>) m = Some d"
  with assms(1,2,3) show "distinct (members d)"
    by (auto dest: recorded_distinct split: if_splits)
next
  fix m d p
  assume d: "clans (s\<lparr>clans := (clans s)(n \<mapsto> c'), players := ps'\<rparr>) m = Some d"
    and p: "p \<in> set (members d)"
  have "\<exists>pr. players s (str p) = Some pr \<and> clan pr = m"
  proof (cases "m = n")
    case True
    with d p assms(3) have "p \<in> set (members c)" by simp
    from recordedD[OF assms(1,2) this] True show ?thesis by simp
  next
    case False
    with d have "clans s m = Some d" by simp
    from recordedD[OF assms(1) this p] show ?thesis .
  qed
  then obtain pr where pr: "players s (str p) = Some pr" "clan pr = m" by blast
  from ps[of "str p"] pr
  show "\<exists>pr. players (s\<lparr>clans := (clans s)(n \<mapsto> c'), players := ps'\<rparr>) (str p) = Some pr \<and> clan pr = m"
    by (cases "ps' (str p)") auto
qed

lemma members_recorded_ranks_only:
  assumes "members_recorded s" and "clans s n = Some c" and "members c' = members c"
  shows "members_recorded (s\<lparr>clans := (clans s)(n \<mapsto> c')\<rparr>)"
  using members_recorded_ranks[OF assms, of "players s"] by simp

text \<open>Taking a member out of its clan and deleting its record.\<close>

lemma members_recorded_remove:
  assumes "members_recorded s" and "clans s n = Some c" and "t \<in> set (members c)"
    and "members c' = remove1 t (members c)"
  shows "members_recorded (s\<lparr>clans := (clans s)(n \<mapsto> c'), players := (players s)(str t := None)\<rparr>)"
proof (rule members_recordedI)
  fix m d
  assume "clans (s\<lparr>clans := (clans s)(n \<mapsto> c'), players := (players s)(str t := None)\<rparr>) m = Some d"
  with assms(1,2,4) show "distinct (members d)"
    by (auto dest: recorded_distinct split: if_splits)
next
  fix m d p
  let ?s' = "s\<lparr>clans := (clans s)(n \<mapsto> c'), players := (players s)(str t := None)\<rparr>"
  assume d: "clans ?s' m = Some d" and p: "p \<in> set (members d)"
  from assms(1,2) have dist: "distinct (members c)" by (rule recorded_distinct)
  have "p \<noteq> t \<and> (\<exists>pr. players s (str p) = Some pr \<and> clan pr = m)"
  proof (cases "m = n")
    case True
    with d p assms(4) have pin: "p \<in> set (remove1 t (members c))" by simp
    with dist have "p \<noteq> t" "p \<in> set (members c)" by auto
    with recordedD[OF assms(1,2), of p] True show ?thesis by simp
  next
    case False
    with d have dm: "clans s m = Some d" by simp
    from recorded_unique[OF assms(1,2,3) dm] False p have "p \<noteq> t" by auto
    with recordedD[OF assms(1) dm p] show ?thesis by simp
  qed
  then show "\<exists>pr. players ?s' (str p) = Some pr \<and> clan pr = m" by simp
qed

text \<open>Appending a player who is in no clan, and giving it a record of the clan.\<close>

lemma members_recorded_add:
  assumes "members_recorded s" and "clans s n = Some c"
    and free: "\<And>m d. clans s m = Some d \<Longrightarrow> t \<notin> set (members d)"
    and "members c' = members c @ [t]" and "clan pr = n"
  shows "members_recorded (s\<lparr>clans := (clans s)(n \<mapsto> c'), players := (players s)(str t \<mapsto> pr)\<rparr>)"
proof (rule members_recordedI)
  fix m d
  assume "clans (s\<lparr>clans := (clans s)(n \<mapsto> c'), players := (players s)(str t \<mapsto> pr)\<rparr>) m = Some d"
  with assms(1,2,4) free[OF assms(2)] show "distinct (members d)"
    by (auto dest: recorded_distinct split: if_splits)
next
  fix m d p
  let ?s' = "s\<lparr>clans := (clans s)(n \<mapsto> c'), players := (players s)(str t \<mapsto> pr)\<rparr>"
  assume d: "clans ?s' m = Some d" and p: "p \<in> set (members d)"
  show "\<exists>pr. players ?s' (str p) = Some pr \<and> clan pr = m"
  proof (cases "m = n")
    case True
    with d p assms(4) have "p = t \<or> p \<in> set (members c)" by auto
    with recordedD[OF assms(1,2), of p] assms(5) True show ?thesis by auto
  next
    case False
    with d have dm: "clans s m = Some d" by simp
    from free[OF dm] p have "p \<noteq> t" by auto
    with recordedD[OF assms(1) dm p] show ?thesis by simp
  qed
qed

lemma clanless_free:
  "members_recorded s \<Longrightarrow> players s (str t) = None \<Longrightarrow> clans s m = Some d \<Longrightarrow>
     t \<notin> set (members d)"
  by (auto dest: recordedD)

text \<open>Deleting a clan with the records of its members.\<close>

lemma members_recorded_delete:
  assumes "members_recorded s" and "clans s n = Some c"
  shows "members_recorded
           (s\<lparr>clans := (clans s)(n := None), players := del_players (members c) (players s)\<rparr>)"
proof (rule members_recordedI)
  fix m d
  assume "clans (s\<lparr>clans := (clans s)(n := None), players := del_players (members c) (players s)\<rparr>) m = Some d"
  with assms(1) show "distinct (members d)"
    by (auto dest: recorded_distinct split: if_splits)
next
  fix m d p
  let ?s' = "s\<lparr>clans := (clans s)(n := None), players := del_players (members c) (players s)\<rparr>"
  assume d: "clans ?s' m = Some d" and p: "p \<in> set (members d)"
  then have mn: "m \<noteq> n" and dm: "clans s m = Some d" by (auto split: if_splits)
  from recorded_unique[OF assms(1) dm p assms(2)] mn have "p \<notin> set (members c)" by auto
  then have "str p \<notin> str ` set (members c)" by auto
  with recordedD[OF assms(1) dm p] show "\<exists>pr. players ?s' (str p) = Some pr \<and> clan pr = m"
    by (simp add: del_players_apply)
qed

text \<open>A new clan of a player who is in no clan.\<close>

lemma members_recorded_new:
  assumes "members_recorded s" and "clans s n = None" and "players s (str p) = None"
    and "members c' = [p]" and "clan pr = n"
  shows "members_recorded (s\<lparr>clans := (clans s)(n \<mapsto> c'), players := (players s)(str p \<mapsto> pr)\<rparr>)"
proof (rule members_recordedI)
  fix m d
  assume "clans (s\<lparr>clans := (clans s)(n \<mapsto> c'), players := (players s)(str p \<mapsto> pr)\<rparr>) m = Some d"
  with assms(1,4) show "distinct (members d)"
    by (auto dest: recorded_distinct split: if_splits)
next
  fix m d q
  let ?s' = "s\<lparr>clans := (clans s)(n \<mapsto> c'), players := (players s)(str p \<mapsto> pr)\<rparr>"
  assume d: "clans ?s' m = Some d" and q: "q \<in> set (members d)"
  show "\<exists>pr. players ?s' (str q) = Some pr \<and> clan pr = m"
  proof (cases "m = n")
    case True
    with d q assms(4,5) show ?thesis by auto
  next
    case False
    with d have dm: "clans s m = Some d" by simp
    from clanless_free[OF assms(1,3) dm] q have "q \<noteq> p" by auto
    with recordedD[OF assms(1) dm q] show ?thesis by simp
  qed
qed

subsection \<open>The operations\<close>

lemma create_clan_recorded:
  assumes "members_recorded s" and "get_player_clan s p = None"
  shows "members_recorded (snd (create_clan s p n))"
proof (cases "clans s n")
  case None
  from assms(2) have np: "players s (str p) = None" by (simp add: get_player_clan_def)
  from members_recorded_new[OF assms(1) None np] None show ?thesis
    by (simp add: create_clan_def)
next
  case (Some c)
  with assms(1) show ?thesis by (simp add: create_clan_def)
qed

lemma kick_member_recorded:
  assumes "members_recorded s"
  shows "members_recorded (snd (kick_member h s k tn n))"
  using assms
  by (auto simp: kick_member_def Let_def list_remove_def del_player_upd drop_ranks_def
      intro!: members_recorded_remove split: option.splits sum.splits bool.splits)

lemma invite_member_recorded:
  assumes "members_recorded s"
  shows "members_recorded (snd (invite_member h s i tn n))"
  using assms
  by (auto simp: invite_member_def Let_def
      intro!: members_recorded_add dest: clanless_free split: option.splits sum.splits bool.splits)

lemma disband_clan_recorded:
  assumes "members_recorded s"
  shows "members_recorded (snd (disband_clan s p n))"
  using assms
  by (auto simp: disband_clan_def intro!: members_recorded_delete
      split: option.splits sum.splits bool.splits)

lemma delete_clan_recorded:
  assumes "members_recorded s"
  shows "members_recorded (snd (delete_clan s n))"
  using assms
  by (auto simp: delete_clan_def intro!: members_recorded_delete split: option.splits)

lemma store_role_recorded:
  assumes "members_recorded s1"
  shows "members_recorded (snd (store_role s1 t r msg))"
proof (cases "players s1 (str t)")
  case None
  with assms show ?thesis by (simp add: store_role_def set_role_def)
next
  case (Some pr)
  have "members_recorded (s1\<lparr>players := (players s1)(str t \<mapsto> pr\<lparr>role := r\<rparr>)\<rparr>)"
  proof (rule members_recordedI)
    fix m d
    assume "clans (s1\<lparr>players := (players s1)(str t \<mapsto> pr\<lparr>role := r\<rparr>)\<rparr>) m = Some d"
    with assms show "distinct (members d)" by (auto dest: recorded_distinct)
  next
    fix m d p
    assume "clans (s1\<lparr>players := (players s1)(str t \<mapsto> pr\<lparr>role := r\<rparr>)\<rparr>) m = Some d"
      and p: "p \<in> set (members d)"
    then have dm: "clans s1 m = Some d" by simp
    from recordedD[OF assms dm p] Some
    show "\<exists>pr'. players (s1\<lparr>players := (players s1)(str t \<mapsto> pr\<lparr>role := r\<rparr>)\<rparr>) (str p) = Some pr'
            \<and> clan pr' = m"
      by auto
  qed
  with Some show ?thesis by (simp add: store_role_def set_role_def)
qed

lemma promote_member_recorded:
  assumes "members_recorded s"
  shows "members_recorded (snd (promote_member h s p tn n r))"
  using assms
  by (auto simp: promote_member_def Let_def list_remove_def
      intro!: store_role_recorded members_recorded_ranks_only
      split: option.splits sum.splits bool.splits)

lemma demote_member_recorded:
  assumes "members_recorded s"
  shows "members_recorded (snd (demote_member h s p tn n))"
  using assms
  by (auto simp: demote_member_def Let_def list_remove_def
      intro!: store_role_recorded members_recorded_ranks_only
      split: option.splits sum.splits bool.splits)

lemma force_kick_recorded:
  assumes "members_recorded s"
  shows "members_recorded (snd (force_kick h s tn))"
  using assms
  by (auto simp: force_kick_def Let_def list_remove_def drop_ranks_def
      intro!: members_recorded_remove split: option.splits sum.splits)

text \<open>After leaving its old clan the target is in no clan; its record is still there.\<close>

lemma leave_old_clan_free:
  assumes "members_recorded s" and "leave_old_clan s t = Inr s1"
  shows "players s1 = players s"
    and "(clans s1 m = None) = (clans s m = None)"
    and "clans s1 m = Some d \<Longrightarrow> t \<notin> set (members d)"
    and "clans s1 m = Some d \<Longrightarrow> distinct (members d)"
    and "clans s1 m = Some d \<Longrightarrow> p \<in> set (members d) \<Longrightarrow>
           \<exists>pr. players s (str p) = Some pr \<and> clan pr = m"
proof -
  show "players s1 = players s"
    using assms(2)
    by (auto simp: leave_old_clan_def list_remove_def split: option.splits if_splits)
  show "(clans s1 m = None) = (clans s m = None)"
    using assms(2)
    by (auto simp: leave_old_clan_def list_remove_def split: option.splits if_splits)
  consider (none) "players s (str t) = None" "s1 = s"
    | (some) pr oc where "players s (str t) = Some pr" "clans s (clan pr) = Some oc"
        "t \<in> set (members oc)"
        "s1 = s\<lparr>clans := (clans s)(clan pr \<mapsto> drop_ranks t (oc\<lparr>members := remove1 t (members oc)\<rparr>))\<rparr>"
    using assms(2)
    by (auto simp: leave_old_clan_def list_remove_def split: option.splits if_splits)
  then have "clans s1 m = Some d \<longrightarrow>
      t \<notin> set (members d) \<and> distinct (members d) \<and>
      (p \<in> set (members d) \<longrightarrow> (\<exists>pr. players s (str p) = Some pr \<and> clan pr = m))"
  proof cases
    case none
    with assms(1) show ?thesis
      by (auto dest: clanless_free recorded_distinct recordedD)
  next
    case some
    from assms(1) some(2) have dist: "distinct (members oc)" by (rule recorded_distinct)
    show ?thesis
    proof (cases "m = clan pr")
      case True
      with some dist recordedD[OF assms(1) some(2), of p] show ?thesis
        by (auto simp: drop_ranks_def dest: notin_set_remove1)
    next
      case False
      show ?thesis
      proof
        assume "clans s1 m = Some d"
        with False some(4) have dm: "clans s m = Some d" by simp
        from recorded_unique[OF assms(1) some(2,3) dm] False have "t \<notin> set (members d)" by auto
        with assms(1) dm show "t \<notin> set (members d) \<and> distinct (members d) \<and>
          (p \<in> set (members d) \<longrightarrow> (\<exists>pr. players s (str p) = Some pr \<and> clan pr = m))"
          by (auto dest: recorded_distinct recordedD)
      qed
    qed
  qed
  then show "clans s1 m = Some d \<Longrightarrow> t \<notin> set (members d)"
    and "clans s1 m = Some d \<Longrightarrow> distinct (members d)"
    and "clans s1 m = Some d \<Longrightarrow> p \<in> set (members d) \<Longrightarrow>
           \<exists>pr. players s (str p) = Some pr \<and> clan pr = m"
    by blast+
qed

lemma force_join_recorded:
  assumes "members_recorded s"
  shows "members_recorded (snd (force_join h s tn n))"
proof -
  let ?t = "find_player_id_by_name h tn"
  show ?thesis
  proof (cases "leave_old_clan s ?t")
    case (Inl e)
    with assms show ?thesis by (simp add: force_join_def Let_def)
  next
    case (Inr s1)
    note free = leave_old_clan_free[OF assms Inr]
    show ?thesis
    proof (cases "clans s1 n")
      case None
      with free(2)[of n] Inr assms show ?thesis
        by (simp add: force_join_def Let_def)
    next
      case (Some c)
      have "members_recorded
              (s1\<lparr>clans := (clans s1)(n \<mapsto> c\<lparr>members := members c @ [?t]\<rparr>),
                  players := (players s1)(str ?t \<mapsto> \<lparr>clan = n, role = ''Member''\<rparr>)\<rparr>)"
      proof (rule members_recordedI)
        fix m d
        assume "clans (s1\<lparr>clans := (clans s1)(n \<mapsto> c\<lparr>members := members c @ [?t]\<rparr>),
                  players := (players s1)(str ?t \<mapsto> \<lparr>clan = n, role = ''Member''\<rparr>)\<rparr>) m = Some d"
        with free(3,4)[of n c] free(4)[of m d] Some show "distinct (members d)"
          by (auto split: if_splits)
      next
        fix m d p
        assume d: "clans (s1\<lparr>clans := (clans s1)(n \<mapsto> c\<lparr>members := members c @ [?t]\<rparr>),
                  players := (players s1)(str ?t \<mapsto> \<lparr>clan = n, role = ''Member''\<rparr>)\<rparr>) m = Some d"
          and p: "p \<in> set (members d)"
        show "\<exists>pr. players (s1\<lparr>clans := (clans s1)(n \<mapsto> c\<lparr>members := members c @ [?t]\<rparr>),
                  players := (players s1)(str ?t \<mapsto> \<lparr>clan = n, role = ''Member''\<rparr>)\<rparr>) (str p) = Some pr
                \<and> clan pr = m"
        proof (cases "m = n")
          case True
          with d p have "p = ?t \<or> p \<in> set (members c)" by auto
          with free(5)[OF Some, of p] free(1) True show ?thesis by auto
        next
          case False
          with d have dm: "clans s1 m = Some d" by simp
          from free(3)[OF dm] p have "p \<noteq> ?t" by auto
          with free(5)[OF dm p] free(1) show ?thesis by simp
        qed
      qed
      with Some Inr assms show ?thesis
        by (simp add: force_join_def Let_def)
    qed
  qed
qed

lemma exec_recorded:
  "members_recorded s \<Longrightarrow> caller_checked s x \<Longrightarrow> members_recorded (snd (exec h s x))"
  by (cases x)
    (simp_all add: create_clan_recorded kick_member_recorded invite_member_recorded
      disband_clan_recorded promote_member_recorded demote_member_recorded force_kick_recorded
      force_join_recorded delete_clan_recorded)

lemma run_recorded:
  "members_recorded s \<Longrightarrow> checked_run h s xs \<Longrightarrow> members_recorded (run h s xs)"
  by (induction xs arbitrary: s) (auto intro: exec_recorded)

text \<open>
  Claim C3, as the code has it. \<open>create_clan\<close> does not look at the caller's record, so
  two creations by one caller put that caller into two clans (the counterexample below).
  The command layer asks \<open>get_player_clan\<close> before it calls \<open>create_clan\<close>. With that
  check, whatever else is called and in whatever order, calls that fail or raise included:
  after every sequence of operations from the empty registry in which each \<open>CreateClan\<close>
  is called for a caller without a player record, every player id is in the members of at
  most one clan.
\<close>

theorem one_clan_per_player:
  assumes "checked_run h empty_registry xs"
  shows "one_clan_each (run h empty_registry xs)"
  using run_recorded[OF members_recorded_empty assms] by (rule members_recorded_one_clan)

text \<open>Without the check of the command layer: one caller creates two clans.\<close>

theorem one_clan_per_player_counterexample:
  "\<not> one_clan_each (run hash0 empty_registry [CreateClan 1 ''Raiders'', CreateClan 1 ''Vikings''])"
proof
  assume a: "one_clan_each (run hash0 empty_registry [CreateClan 1 ''Raiders'', CreateClan 1 ''Vikings''])"
  have "member_of (run hash0 empty_registry [CreateClan 1 ''Raiders'', CreateClan 1 ''Vikings'']) 1 ''Raiders''"
    and "member_of (run hash0 empty_registry [CreateClan 1 ''Raiders'', CreateClan 1 ''Vikings'']) 1 ''Vikings''"
    by (simp_all add: member_of_def create_clan_def empty_registry_def)
  with a have "''Raiders'' = ''Vikings''" unfolding one_clan_each_def by blast
  then show False by simp
qed

text \<open>A checked sequence: bob is invited to Raiders and then force joined to Vikings.\<close>

theorem one_clan_per_player_witness:
  "checked_run hash0 empty_registry
     [CreateClan 1 ''Raiders'', InviteMember 1 ''bob'' ''Raiders'', CreateClan 2 ''Vikings'',
      ForceJoin ''bob'' ''Vikings'']
   \<and> one_clan_each (run hash0 empty_registry
     [CreateClan 1 ''Raiders'', InviteMember 1 ''bob'' ''Raiders'', CreateClan 2 ''Vikings'',
      ForceJoin ''bob'' ''Vikings''])
   \<and> member_of (run hash0 empty_registry
     [CreateClan 1 ''Raiders'', InviteMember 1 ''bob'' ''Raiders'', CreateClan 2 ''Vikings'',
      ForceJoin ''bob'' ''Vikings'']) 5 ''Vikings''"
proof -
  have c: "checked_run hash0 empty_registry
     [CreateClan 1 ''Raiders'', InviteMember 1 ''bob'' ''Raiders'', CreateClan 2 ''Vikings'',
      ForceJoin ''bob'' ''Vikings'']"
    by (simp add: op_defs)
  have m: "member_of (run hash0 empty_registry
     [CreateClan 1 ''Raiders'', InviteMember 1 ''bob'' ''Raiders'', CreateClan 2 ''Vikings'',
      ForceJoin ''bob'' ''Vikings'']) 5 ''Vikings''"
    by (simp add: op_defs member_of_def)
  from c one_clan_per_player [OF c] m show ?thesis by simp
qed

section \<open>The invariant of a clan\<close>

lemma registry_ok_empty: "registry_ok empty_registry"
  by (simp add: registry_ok_def empty_registry_def)

lemma registry_ok_all_clans: "registry_ok s \<Longrightarrow> all_clans_inv s"
  by (simp add: registry_ok_def all_clans_inv_def clan_ok_def)

lemma registry_ok_recorded: "registry_ok s \<Longrightarrow> members_recorded s"
  by (rule members_recordedI) (auto simp: registry_ok_def clan_ok_def)

lemma registry_okD: "registry_ok s \<Longrightarrow> clans s n = Some c \<Longrightarrow> clan_ok s n c"
  by (simp add: registry_ok_def)

lemma clan_ok_frame:
  assumes "clan_ok s m d" and "\<And>p. p \<in> set (members d) \<Longrightarrow> ps (str p) = players s (str p)"
  shows "clan_ok (s\<lparr>clans := cs, players := ps\<rparr>) m d"
  using assms by (simp add: clan_ok_def)

lemma clan_ok_clans [simp]:
  "clan_ok (s\<lparr>clans := cs\<rparr>) m d = clan_ok s m d"
  "clan_ok (s\<lparr>clans := cs, players := ps\<rparr>) m d = clan_ok (s\<lparr>players := ps\<rparr>) m d"
  by (simp_all add: clan_ok_def)

text \<open>A record of a player who is in no clan does not matter.\<close>

lemma registry_ok_record:
  assumes "registry_ok s" and "clanless s t"
  shows "registry_ok (s\<lparr>players := (players s)(str t := x)\<rparr>)"
  using assms by (auto simp: registry_ok_def clan_ok_def clanless_def)

lemma no_record_clanless:
  "registry_ok s \<Longrightarrow> players s (str t) = None \<Longrightarrow> clanless s t"
  by (auto simp: registry_ok_def clan_ok_def clanless_def)

text \<open>Taking a member who is not the leader out of its clan.\<close>

lemma role_of_drop:
  "p \<noteq> t \<Longrightarrow> role_of (drop_ranks t (c\<lparr>members := ms\<rparr>)) p = role_of c p"
  by (simp add: role_of_def drop_ranks_def remove_if_in_remove1)

lemma clan_inv_drop:
  assumes "clan_inv c" and "distinct (members c)" and "distinct (mods c)" and "distinct (coleaders c)"
    and "t \<noteq> leader c"
  shows "clan_inv (drop_ranks t (c\<lparr>members := remove1 t (members c)\<rparr>))"
  using assms by (auto simp: clan_inv_def drop_ranks_def remove_if_in_remove1)

lemma registry_ok_leave:
  assumes "registry_ok s" and c: "clans s n = Some c" and t: "t \<in> set (members c)"
    and l: "t \<noteq> leader c"
  shows "registry_ok (s\<lparr>clans := (clans s)(n \<mapsto> drop_ranks t (c\<lparr>members := remove1 t (members c)\<rparr>))\<rparr>)"
    and "clanless (s\<lparr>clans := (clans s)(n \<mapsto> drop_ranks t (c\<lparr>members := remove1 t (members c)\<rparr>))\<rparr>) t"
proof -
  let ?c' = "drop_ranks t (c\<lparr>members := remove1 t (members c)\<rparr>)"
  from registry_okD[OF assms(1) c] have ok: "clan_ok s n c" .
  have "role_of ?c' p = role_of c p" if "p \<noteq> t" for p
    using that by (rule role_of_drop)
  moreover have "members ?c' = remove1 t (members c)" "mods ?c' = remove1 t (mods c)"
    "coleaders ?c' = remove1 t (coleaders c)"
    by (simp_all add: drop_ranks_def remove_if_in_remove1)
  moreover from ok l have "clan_inv ?c'"
    by (intro clan_inv_drop) (simp_all add: clan_ok_def)
  ultimately have "clan_ok s n ?c'"
    using ok unfolding clan_ok_def by auto
  with assms(1) show "registry_ok (s\<lparr>clans := (clans s)(n \<mapsto> ?c')\<rparr>)"
    by (auto simp: registry_ok_def)
  have "t \<notin> set (members d)" if "clans s m = Some d" "m \<noteq> n" for m d
    using recorded_unique[OF registry_ok_recorded[OF assms(1)] c t that(1)] that(2) by auto
  moreover from ok have "t \<notin> set (members ?c')"
    by (simp add: clan_ok_def drop_ranks_def)
  ultimately show "clanless (s\<lparr>clans := (clans s)(n \<mapsto> ?c')\<rparr>) t"
    by (auto simp: clanless_def)
qed

text \<open>Appending a player who is in no clan as a Member.\<close>

lemma registry_ok_join:
  assumes "registry_ok s" and c: "clans s n = Some c" and t: "clanless s t"
  shows "registry_ok (s\<lparr>clans := (clans s)(n \<mapsto> c\<lparr>members := members c @ [t]\<rparr>),
                        players := (players s)(str t \<mapsto> \<lparr>clan = n, role = ''Member''\<rparr>)\<rparr>)"
proof -
  from registry_okD[OF assms(1) c] have ok: "clan_ok s n c" .
  from t c have tn: "t \<notin> set (members c)" by (auto simp: clanless_def)
  with ok have r: "role_of (c\<lparr>members := members c @ [t]\<rparr>) t = ''Member''"
    by (auto simp: clan_ok_def clan_inv_def role_of_def)
  have r': "role_of (c\<lparr>members := members c @ [t]\<rparr>) p = role_of c p" for p
    by (simp add: role_of_def)
  from ok tn r have "clan_ok (s\<lparr>players := (players s)(str t \<mapsto> \<lparr>clan = n, role = ''Member''\<rparr>)\<rparr>) n
      (c\<lparr>members := members c @ [t]\<rparr>)"
    by (auto simp: clan_ok_def r') (auto simp: clan_inv_def)
  with registry_ok_record[OF assms(1) t, of "Some \<lparr>clan = n, role = ''Member''\<rparr>"] show ?thesis
    by (auto simp: registry_ok_def)
qed

text \<open>A new clan of a player without a record.\<close>

lemma registry_ok_new:
  assumes "registry_ok s" and "clans s n = None" and p: "players s (str p) = None"
  shows "registry_ok
           (s\<lparr>clans := (clans s)(n \<mapsto> \<lparr>leader = p, members = [p], mods = [], coleaders = []\<rparr>),
              players := (players s)(str p \<mapsto> \<lparr>clan = n, role = ''Leader''\<rparr>)\<rparr>)"
proof -
  have "clan_ok (s\<lparr>players := (players s)(str p \<mapsto> \<lparr>clan = n, role = ''Leader''\<rparr>)\<rparr>) n
          \<lparr>leader = p, members = [p], mods = [], coleaders = []\<rparr>"
    by (simp add: clan_ok_def clan_inv_def role_of_def)
  with registry_ok_record[OF assms(1) no_record_clanless[OF assms(1) p],
      of "Some \<lparr>clan = n, role = ''Leader''\<rparr>"]
  show ?thesis by (auto simp: registry_ok_def)
qed

text \<open>Deleting a clan with the records of its members.\<close>

lemma registry_ok_delete:
  assumes "registry_ok s" and c: "clans s n = Some c"
  shows "registry_ok
           (s\<lparr>clans := (clans s)(n := None), players := del_players (members c) (players s)\<rparr>)"
  unfolding registry_ok_def
proof (intro allI impI)
  fix m d
  assume "clans (s\<lparr>clans := (clans s)(n := None), players := del_players (members c) (players s)\<rparr>) m
            = Some d"
  then have mn: "m \<noteq> n" and dm: "clans s m = Some d" by (auto split: if_splits)
  have "del_players (members c) (players s) (str p) = players s (str p)"
    if "p \<in> set (members d)" for p
  proof -
    from recorded_unique[OF registry_ok_recorded[OF assms(1)] dm that c] mn
    have "p \<notin> set (members c)" by auto
    then have "str p \<notin> str ` set (members c)" by auto
    then show ?thesis by (simp add: del_players_apply)
  qed
  with registry_okD[OF assms(1) dm]
  show "clan_ok (s\<lparr>clans := (clans s)(n := None), players := del_players (members c) (players s)\<rparr>) m d"
    by (simp add: clan_ok_def)
qed

text \<open>
  Changing the ranks of one member \<open>t\<close> of a clan and storing its new role: the clan's
  members stay, every other member keeps its role, and \<open>t\<close>'s new role is the one its
  clan's lists give it.
\<close>

lemma registry_ok_rank:
  assumes "registry_ok s" and c: "clans s n = Some c" and t: "t \<in> set (members c)"
    and c': "members c' = members c" "leader c' = leader c" "clan_inv c'"
      "distinct (mods c')" "distinct (coleaders c')"
    and others: "\<And>p. p \<noteq> t \<Longrightarrow> role_of c' p = role_of c p"
    and r: "role_of c' t = r"
  shows "registry_ok (snd (store_role (s\<lparr>clans := (clans s)(n \<mapsto> c')\<rparr>) t r msg))"
proof -
  from registry_okD[OF assms(1) c] have ok: "clan_ok s n c" .
  with t have pr: "players s (str t) = Some \<lparr>clan = n, role = role_of c t\<rparr>"
    by (simp add: clan_ok_def)
  let ?ps = "(players s)(str t \<mapsto> \<lparr>clan = n, role = r\<rparr>)"
  from pr have st: "snd (store_role (s\<lparr>clans := (clans s)(n \<mapsto> c')\<rparr>) t r msg)
      = s\<lparr>clans := (clans s)(n \<mapsto> c'), players := ?ps\<rparr>"
    by (simp add: store_role_def set_role_def)
  have "registry_ok (s\<lparr>clans := (clans s)(n \<mapsto> c'), players := ?ps\<rparr>)"
    unfolding registry_ok_def
  proof (intro allI impI)
    fix m d
    assume d: "clans (s\<lparr>clans := (clans s)(n \<mapsto> c'), players := ?ps\<rparr>) m = Some d"
    show "clan_ok (s\<lparr>clans := (clans s)(n \<mapsto> c'), players := ?ps\<rparr>) m d"
    proof (cases "m = n")
      case True
      with d have "d = c'" by simp
      with ok c' others r True show ?thesis
        by (auto simp: clan_ok_def)
    next
      case False
      with d have dm: "clans s m = Some d" by simp
      from recorded_unique[OF registry_ok_recorded[OF assms(1)] c t dm] False
      have "t \<notin> set (members d)" by auto
      with registry_okD[OF assms(1) dm] show ?thesis
        by (auto simp: clan_ok_def)
    qed
  qed
  with st show ?thesis by simp
qed

lemma registry_ok_remove:
  assumes "registry_ok s" and "clans s n = Some c" and "t \<in> set (members c)" and "t \<noteq> leader c"
  shows "registry_ok
           (s\<lparr>clans := (clans s)(n \<mapsto> drop_ranks t (c\<lparr>members := remove1 t (members c)\<rparr>)),
              players := (players s)(str t := None)\<rparr>)"
  using registry_ok_record[OF registry_ok_leave[OF assms], of None] by simp

lemma member_role:
  "registry_ok s \<Longrightarrow> clans s n = Some c \<Longrightarrow> t \<in> set (members c) \<Longrightarrow>
     players s (str t) = Some \<lparr>clan = n, role = role_of c t\<rparr>"
  by (auto simp: registry_ok_def clan_ok_def)

lemma member_get_role:
  "registry_ok s \<Longrightarrow> clans s n = Some c \<Longrightarrow> t \<in> set (members c) \<Longrightarrow>
     get_player_role s t = role_of c t"
  by (simp add: get_player_role_def member_role)

lemma create_clan_ok:
  assumes "registry_ok s" and "get_player_clan s p = None"
  shows "registry_ok (snd (create_clan s p n))"
proof (cases "clans s n")
  case None
  from assms(2) have "players s (str p) = None" by (simp add: get_player_clan_def)
  from registry_ok_new[OF assms(1) None this] None show ?thesis
    by (simp add: create_clan_def)
next
  case (Some c)
  with assms(1) show ?thesis by (simp add: create_clan_def)
qed

lemma kick_member_ok:
  assumes "registry_ok s"
  shows "registry_ok (snd (kick_member h s k tn n))"
  using assms
  by (auto simp: kick_member_def Let_def list_remove_def del_player_upd is_leader_def
      intro!: registry_ok_remove split: option.splits sum.splits bool.splits)

lemma invite_member_ok:
  assumes "registry_ok s"
  shows "registry_ok (snd (invite_member h s i tn n))"
  using assms
  by (auto simp: invite_member_def Let_def
      intro!: registry_ok_join no_record_clanless split: option.splits sum.splits bool.splits)

lemma disband_clan_ok:
  assumes "registry_ok s"
  shows "registry_ok (snd (disband_clan s p n))"
  using assms
  by (auto simp: disband_clan_def intro!: registry_ok_delete
      split: option.splits sum.splits bool.splits)

lemma delete_clan_ok:
  assumes "registry_ok s"
  shows "registry_ok (snd (delete_clan s n))"
  using assms
  by (auto simp: delete_clan_def intro!: registry_ok_delete split: option.splits)

lemma force_kick_ok:
  assumes "registry_ok s" and g: "get_player_role s (find_player_id_by_name h tn) \<noteq> ''Leader''"
  shows "registry_ok (snd (force_kick h s tn))"
proof -
  let ?t = "find_player_id_by_name h tn"
  have "registry_ok
          (s\<lparr>clans := (clans s)(clan pr \<mapsto> drop_ranks ?t (c\<lparr>members := remove1 ?t (members c)\<rparr>)),
             players := (players s)(str ?t := None)\<rparr>)"
    if pr: "players s (str ?t) = Some pr" and c: "clans s (clan pr) = Some c"
      and t: "?t \<in> set (members c)" for pr c
  proof -
    from member_get_role[OF assms(1) c t] g have "role_of c ?t \<noteq> ''Leader''"
      by simp
    then have "?t \<noteq> leader c" by (auto simp: role_of_def)
    from registry_ok_remove[OF assms(1) c t this] show ?thesis .
  qed
  with assms(1) show ?thesis
    by (auto simp: force_kick_def Let_def list_remove_def split: option.splits sum.splits)
qed

lemma leave_old_clan_ok:
  assumes "registry_ok s" and g: "get_player_role s t \<noteq> ''Leader''"
    and l: "leave_old_clan s t = Inr s1"
  shows "registry_ok s1 \<and> clanless s1 t \<and> players s1 = players s"
proof (cases "players s (str t)")
  case None
  with l have "s1 = s" by (simp add: leave_old_clan_def)
  with no_record_clanless[OF assms(1) None] assms(1) show ?thesis by simp
next
  case (Some pr)
  with l obtain oc where oc: "clans s (clan pr) = Some oc" and t: "t \<in> set (members oc)"
    and s1: "s1 = s\<lparr>clans := (clans s)(clan pr \<mapsto> drop_ranks t (oc\<lparr>members := remove1 t (members oc)\<rparr>))\<rparr>"
    by (auto simp: leave_old_clan_def list_remove_def split: option.splits if_splits)
  from member_get_role[OF assms(1) oc t] g have "role_of oc t \<noteq> ''Leader''"
    by simp
  then have "t \<noteq> leader oc" by (auto simp: role_of_def)
  from registry_ok_leave[OF assms(1) oc t this] s1 show ?thesis by simp
qed

lemma force_join_ok:
  assumes "registry_ok s" and g: "get_player_role s (find_player_id_by_name h tn) \<noteq> ''Leader''"
  shows "registry_ok (snd (force_join h s tn n))"
proof -
  let ?t = "find_player_id_by_name h tn"
  show ?thesis
  proof (cases "leave_old_clan s ?t")
    case (Inl e)
    with assms(1) show ?thesis by (simp add: force_join_def Let_def)
  next
    case (Inr s1)
    from leave_old_clan_ok[OF assms Inr]
    have ok: "registry_ok s1" and free: "clanless s1 ?t" by simp_all
    show ?thesis
    proof (cases "clans s1 n")
      case None
      with ok assms(1) Inr show ?thesis by (simp add: force_join_def Let_def)
    next
      case (Some c)
      from registry_ok_join[OF ok Some free] Some Inr assms(1) show ?thesis
        by (simp add: force_join_def Let_def)
    qed
  qed
qed

lemma role_of_cases:
  "role_of c t = ''Member'' \<longleftrightarrow> t \<noteq> leader c \<and> t \<notin> set (coleaders c) \<and> t \<notin> set (mods c)"
  "role_of c t = ''Mod'' \<longleftrightarrow> t \<noteq> leader c \<and> t \<notin> set (coleaders c) \<and> t \<in> set (mods c)"
  "role_of c t = ''Co-Leader'' \<longleftrightarrow> t \<noteq> leader c \<and> t \<in> set (coleaders c)"
  "role_of c t = ''Leader'' \<longleftrightarrow> t = leader c"
  by (auto simp: role_of_def)

lemma clan_okD:
  assumes "registry_ok s" and "clans s n = Some c"
  shows "clan_inv c" and "distinct (members c)" and "distinct (mods c)" and "distinct (coleaders c)"
  using registry_okD[OF assms] by (simp_all add: clan_ok_def)

lemma rank_to_mod:
  assumes "registry_ok s" and c: "clans s n = Some c" and t: "t \<in> set (members c)"
    and r: "role_of c t = ''Member''"
  shows "registry_ok (snd (store_role (s\<lparr>clans := (clans s)(n \<mapsto> c\<lparr>mods := mods c @ [t]\<rparr>)\<rparr>)
                            t ''Mod'' msg))"
proof (rule registry_ok_rank[OF assms(1) c t])
  note ok = clan_okD[OF assms(1) c]
  from r have nt: "t \<noteq> leader c" "t \<notin> set (coleaders c)" "t \<notin> set (mods c)"
    by (simp_all add: role_of_cases)
  from ok(1) nt t show "clan_inv (c\<lparr>mods := mods c @ [t]\<rparr>)" by (auto simp: clan_inv_def)
  from ok(3) nt show "distinct (mods (c\<lparr>mods := mods c @ [t]\<rparr>))" by simp
  from ok(4) show "distinct (coleaders (c\<lparr>mods := mods c @ [t]\<rparr>))" by simp
  from nt show "role_of (c\<lparr>mods := mods c @ [t]\<rparr>) t = ''Mod''" by (simp add: role_of_def)
  show "role_of (c\<lparr>mods := mods c @ [t]\<rparr>) p = role_of c p" if "p \<noteq> t" for p
    using that by (simp add: role_of_def)
qed simp_all

lemma rank_mod_to_coleader:
  assumes "registry_ok s" and c: "clans s n = Some c" and t: "t \<in> set (members c)"
    and r: "role_of c t = ''Mod''"
  shows "registry_ok (snd (store_role
            (s\<lparr>clans := (clans s)(n \<mapsto> c\<lparr>mods := remove1 t (mods c),
                                           coleaders := coleaders c @ [t]\<rparr>)\<rparr>)
            t ''Co-Leader'' msg))"
proof (rule registry_ok_rank[OF assms(1) c t])
  let ?c' = "c\<lparr>mods := remove1 t (mods c), coleaders := coleaders c @ [t]\<rparr>"
  note ok = clan_okD[OF assms(1) c]
  from r have nt: "t \<noteq> leader c" "t \<notin> set (coleaders c)" "t \<in> set (mods c)"
    by (simp_all add: role_of_cases)
  from ok(1,3) nt t show "clan_inv ?c'" by (auto simp: clan_inv_def)
  from ok(3) show "distinct (mods ?c')" by simp
  from ok(4) nt show "distinct (coleaders ?c')" by simp
  from nt show "role_of ?c' t = ''Co-Leader''" by (simp add: role_of_def)
  show "role_of ?c' p = role_of c p" if "p \<noteq> t" for p
    using that by (simp add: role_of_def)
qed simp_all

lemma rank_coleader_to_mod:
  assumes "registry_ok s" and c: "clans s n = Some c" and t: "t \<in> set (members c)"
    and r: "role_of c t = ''Co-Leader''"
  shows "registry_ok (snd (store_role
            (s\<lparr>clans := (clans s)(n \<mapsto> c\<lparr>mods := mods c @ [t],
                                           coleaders := remove1 t (coleaders c)\<rparr>)\<rparr>)
            t ''Mod'' msg))"
proof (rule registry_ok_rank[OF assms(1) c t])
  let ?c' = "c\<lparr>mods := mods c @ [t], coleaders := remove1 t (coleaders c)\<rparr>"
  note ok = clan_okD[OF assms(1) c]
  from r have nt: "t \<noteq> leader c" "t \<in> set (coleaders c)"
    by (simp_all add: role_of_cases)
  with ok(1) have nm: "t \<notin> set (mods c)" by (auto simp: clan_inv_def)
  from ok(1,4) nt nm t show "clan_inv ?c'" by (auto simp: clan_inv_def)
  from ok(3) nm show "distinct (mods ?c')" by simp
  from ok(4) show "distinct (coleaders ?c')" by simp
  from nt ok(4) show "role_of ?c' t = ''Mod''" by (simp add: role_of_def)
  show "role_of ?c' p = role_of c p" if "p \<noteq> t" for p
    using that by (simp add: role_of_def)
qed simp_all

lemma rank_mod_to_member:
  assumes "registry_ok s" and c: "clans s n = Some c" and t: "t \<in> set (members c)"
    and r: "role_of c t = ''Mod''"
  shows "registry_ok (snd (store_role
            (s\<lparr>clans := (clans s)(n \<mapsto> c\<lparr>mods := remove1 t (mods c)\<rparr>)\<rparr>) t ''Member'' msg))"
proof (rule registry_ok_rank[OF assms(1) c t])
  let ?c' = "c\<lparr>mods := remove1 t (mods c)\<rparr>"
  note ok = clan_okD[OF assms(1) c]
  from r have nt: "t \<noteq> leader c" "t \<notin> set (coleaders c)" "t \<in> set (mods c)"
    by (simp_all add: role_of_cases)
  from ok(1,3) nt t show "clan_inv ?c'" by (auto simp: clan_inv_def)
  from ok(3) show "distinct (mods ?c')" by simp
  from ok(4) show "distinct (coleaders ?c')" by simp
  from nt ok(3) show "role_of ?c' t = ''Member''" by (simp add: role_of_def)
  show "role_of ?c' p = role_of c p" if "p \<noteq> t" for p
    using that by (simp add: role_of_def)
qed simp_all

lemma ranked_member:
  assumes "registry_ok s" and "clans s n = Some c" and "t \<in> set (mods c) \<or> t \<in> set (coleaders c)"
  shows "t \<in> set (members c)"
  using clan_okD(1)[OF assms(1,2)] assms(3) by (auto simp: clan_inv_def)

lemma promote_member_ok:
  assumes "registry_ok s"
    and g1: "r = ''Mod'' \<longrightarrow> member_of s (find_player_id_by_name h tn) n"
    and g2: "r = ''Co-Leader'' \<longrightarrow> get_player_role s (find_player_id_by_name h tn) \<noteq> ''Member''"
  shows "registry_ok (snd (promote_member h s p tn n r))"
proof -
  let ?t = "find_player_id_by_name h tn"
  let ?done = "''Successfully promoted '' @ tn @ '' to '' @ r"
  show ?thesis
  proof (cases "clans s n")
    case None
    with assms(1) show ?thesis
      by (auto simp: promote_member_def Let_def split: sum.splits bool.splits)
  next
    case (Some c)
    have mod: "registry_ok (snd (store_role (s\<lparr>clans := (clans s)(n \<mapsto> c\<lparr>mods := mods c @ [?t]\<rparr>)\<rparr>)
                            ?t ''Mod'' ?done))"
      if "r = ''Mod''" "get_player_role s ?t = ''Member''"
    proof -
      from g1 that(1) Some have t: "?t \<in> set (members c)" by (simp add: member_of_def)
      from member_get_role[OF assms(1) Some t] that(2) have "role_of c ?t = ''Member''" by simp
      from rank_to_mod[OF assms(1) Some t this] show ?thesis .
    qed
    have col: "registry_ok (snd (store_role
            (s\<lparr>clans := (clans s)(n \<mapsto> c\<lparr>mods := remove1 ?t (mods c),
                                           coleaders := coleaders c @ [?t]\<rparr>)\<rparr>)
            ?t ''Co-Leader'' ?done))"
      if "get_player_role s ?t = ''Mod''" "?t \<in> set (mods c)"
    proof -
      from ranked_member[OF assms(1) Some] that(2) have t: "?t \<in> set (members c)" by simp
      from member_get_role[OF assms(1) Some t] that(1) have "role_of c ?t = ''Mod''" by simp
      from rank_mod_to_coleader[OF assms(1) Some t this] show ?thesis .
    qed
    from Some assms(1) g2 mod col show ?thesis
      by (auto simp: promote_member_def Let_def list_remove_def
          split: sum.splits bool.splits)
  qed
qed

lemma demote_member_ok:
  assumes "registry_ok s"
  shows "registry_ok (snd (demote_member h s p tn n))"
proof -
  let ?t = "find_player_id_by_name h tn"
  let ?done = "''Successfully demoted '' @ tn"
  show ?thesis
  proof (cases "clans s n")
    case None
    with assms(1) show ?thesis
      by (auto simp: demote_member_def Let_def split: sum.splits bool.splits)
  next
    case (Some c)
    have col: "registry_ok (snd (store_role
            (s\<lparr>clans := (clans s)(n \<mapsto> c\<lparr>mods := mods c @ [?t],
                                           coleaders := remove1 ?t (coleaders c)\<rparr>)\<rparr>)
            ?t ''Mod'' ?done))"
      if "get_player_role s ?t = ''Co-Leader''" "?t \<in> set (coleaders c)"
    proof -
      from ranked_member[OF assms(1) Some] that(2) have t: "?t \<in> set (members c)" by simp
      from member_get_role[OF assms(1) Some t] that(1) have "role_of c ?t = ''Co-Leader''" by simp
      from rank_coleader_to_mod[OF assms(1) Some t this] show ?thesis .
    qed
    have mod: "registry_ok (snd (store_role
            (s\<lparr>clans := (clans s)(n \<mapsto> c\<lparr>mods := remove1 ?t (mods c)\<rparr>)\<rparr>) ?t ''Member'' ?done))"
      if "get_player_role s ?t = ''Mod''" "?t \<in> set (mods c)"
    proof -
      from ranked_member[OF assms(1) Some] that(2) have t: "?t \<in> set (members c)" by simp
      from member_get_role[OF assms(1) Some t] that(1) have "role_of c ?t = ''Mod''" by simp
      from rank_mod_to_member[OF assms(1) Some t this] show ?thesis .
    qed
    from Some assms(1) mod col show ?thesis
      by (auto simp: demote_member_def Let_def list_remove_def
          split: sum.splits bool.splits)
  qed
qed

lemma exec_ok:
  "registry_ok s \<Longrightarrow> op_admitted h s x \<Longrightarrow> registry_ok (snd (exec h s x))"
  by (cases x)
    (simp_all add: create_clan_ok kick_member_ok invite_member_ok disband_clan_ok
      promote_member_ok demote_member_ok force_kick_ok force_join_ok delete_clan_ok)

lemma run_ok:
  "registry_ok s \<Longrightarrow> admitted_run h s xs \<Longrightarrow> registry_ok (run h s xs)"
  by (induction xs arbitrary: s) (auto intro: exec_ok)

text \<open>
  Claim C2, as the code has it. The invariant does not hold after every sequence: the
  staff operations have no leader check, so a force kick (or force join) of a leader
  leaves a clan whose leader is not in its members (the counterexample below). What
  holds: after every
  sequence of operations from the empty registry, calls that fail or raise included, in
  which each \<open>CreateClan\<close> is called for a caller without a player record, no
  \<open>ForceKick\<close> or \<open>ForceJoin\<close> is applied to a player whose role is \<open>Leader\<close>, each
  \<open>PromoteMember\<close> to \<open>Mod\<close> has a target in the members of the clan it names, and no
  \<open>PromoteMember\<close> to \<open>Co-Leader\<close> has a target whose role is \<open>Member\<close>: every clan
  has its leader in members, mods and coleaders disjoint, the leader in neither, and
  every player of mods or coleaders in members. Nothing is said about the sequences with
  a promotion of a non-member or of a Member straight to Co-Leader.
\<close>

theorem clans_keep_invariant:
  assumes "admitted_run h empty_registry xs"
  shows "all_clans_inv (run h empty_registry xs)"
  using run_ok[OF registry_ok_empty assms] by (rule registry_ok_all_clans)

text \<open>A force kick takes the leader out of the members of the clan it still leads.\<close>

theorem clans_keep_invariant_counterexample:
  "\<not> all_clans_inv (run hash0 empty_registry [CreateClan 1 ''Raiders'', ForceKick ''alice''])"
proof
  assume a: "all_clans_inv (run hash0 empty_registry [CreateClan 1 ''Raiders'', ForceKick ''alice''])"
  have "clans (run hash0 empty_registry [CreateClan 1 ''Raiders'', ForceKick ''alice'']) ''Raiders''
          = Some \<lparr>leader = 1, members = [], mods = [], coleaders = []\<rparr>"
    by (simp add: op_defs)
  with a have "clan_inv \<lparr>leader = 1, members = [], mods = [], coleaders = []\<rparr>"
    unfolding all_clans_inv_def by blast
  then show False by (simp add: clan_inv_def)
qed

text \<open>The promotion of a Member to Co-Leader, which the theorem leaves out, lists the
  player in mods and in coleaders.\<close>

lemma member_to_coleader_listed_twice:
  "clans (run hash0 empty_registry
            [CreateClan 1 ''Raiders'', InviteMember 1 ''bob'' ''Raiders'',
             PromoteMember 1 ''bob'' ''Raiders'' ''Co-Leader'']) ''Raiders''
     = Some \<lparr>leader = 1, members = [1, 5], mods = [5], coleaders = [5]\<rparr>"
  by (simp add: op_defs)

text \<open>An admitted sequence through every kind of operation but disband and delete.\<close>

theorem clans_keep_invariant_witness:
  "admitted_run hash0 empty_registry
     [CreateClan 1 ''Raiders'', InviteMember 1 ''bob'' ''Raiders'',
      InviteMember 1 ''carol'' ''Raiders'', PromoteMember 1 ''bob'' ''Raiders'' ''Mod'',
      PromoteMember 1 ''bob'' ''Raiders'' ''Co-Leader'', DemoteMember 1 ''bob'' ''Raiders'',
      KickMember 5 ''carol'' ''Raiders'', CreateClan 2 ''Vikings'', ForceJoin ''bob'' ''Vikings'']
   \<and> all_clans_inv (run hash0 empty_registry
     [CreateClan 1 ''Raiders'', InviteMember 1 ''bob'' ''Raiders'',
      InviteMember 1 ''carol'' ''Raiders'', PromoteMember 1 ''bob'' ''Raiders'' ''Mod'',
      PromoteMember 1 ''bob'' ''Raiders'' ''Co-Leader'', DemoteMember 1 ''bob'' ''Raiders'',
      KickMember 5 ''carol'' ''Raiders'', CreateClan 2 ''Vikings'', ForceJoin ''bob'' ''Vikings''])
   \<and> clans (run hash0 empty_registry
     [CreateClan 1 ''Raiders'', InviteMember 1 ''bob'' ''Raiders'',
      InviteMember 1 ''carol'' ''Raiders'', PromoteMember 1 ''bob'' ''Raiders'' ''Mod'',
      PromoteMember 1 ''bob'' ''Raiders'' ''Co-Leader'', DemoteMember 1 ''bob'' ''Raiders'',
      KickMember 5 ''carol'' ''Raiders'', CreateClan 2 ''Vikings'', ForceJoin ''bob'' ''Vikings''])
      ''Vikings'' = Some \<lparr>leader = 2, members = [2, 5], mods = [], coleaders = []\<rparr>"
proof -
  have a: "admitted_run hash0 empty_registry
     [CreateClan 1 ''Raiders'', InviteMember 1 ''bob'' ''Raiders'',
      InviteMember 1 ''carol'' ''Raiders'', PromoteMember 1 ''bob'' ''Raiders'' ''Mod'',
      PromoteMember 1 ''bob'' ''Raiders'' ''Co-Leader'', DemoteMember 1 ''bob'' ''Raiders'',
      KickMember 5 ''carol'' ''Raiders'', CreateClan 2 ''Vikings'', ForceJoin ''bob'' ''Vikings'']"
    by (simp add: op_defs member_of_def)
  have c: "clans (run hash0 empty_registry
     [CreateClan 1 ''Raiders'', InviteMember 1 ''bob'' ''Raiders'',
      InviteMember 1 ''carol'' ''Raiders'', PromoteMember 1 ''bob'' ''Raiders'' ''Mod'',
      PromoteMember 1 ''bob'' ''Raiders'' ''Co-Leader'', DemoteMember 1 ''bob'' ''Raiders'',
      KickMember 5 ''carol'' ''Raiders'', CreateClan 2 ''Vikings'', ForceJoin ''bob'' ''Vikings''])
      ''Vikings'' = Some \<lparr>leader = 2, members = [2, 5], mods = [], coleaders = []\<rparr>"
    by (simp add: op_defs)
  from a clans_keep_invariant [OF a] c show ?thesis by simp
qed

end
